theory Spec2Isabelle
  imports Main "HOL-Library.Char_ord" "HOL-Library.List_Lexorder" "HOL-Library.AList"
begin

section \<open>Strings\<close>

text \<open>
  A JavaScript string is a sequence of UTF-16 code units. The model uses HOL's
  \<^typ>\<open>string\<close>: one \<^typ>\<open>char\<close> stands for one code unit, so the model covers the
  code units 0 to 255. The order on strings (from \<open>Char_ord\<close> and \<open>List_Lexorder\<close>) is the
  lexicographic order of the code units, a proper prefix first: the order of JavaScript's
  \<^verbatim>\<open><\<close> on strings and of \<^verbatim>\<open>Array.prototype.sort()\<close> without a comparator.
\<close>

abbreviation apostrophe :: string where
  "apostrophe \<equiv> [CHR 0x27]"

text \<open>\<^verbatim>\<open>Array.prototype.join\<close> on an array of strings.\<close>

fun join :: "string \<Rightarrow> string list \<Rightarrow> string" where
  "join sep [] = []"
| "join sep [x] = x"
| "join sep (x # y # ys) = x @ sep @ join sep (y # ys)"

text \<open>The regular expression class \<^verbatim>\<open>\w\<close>: \<^verbatim>\<open>[A-Za-z0-9_]\<close>.\<close>

definition isWordChar :: "char \<Rightarrow> bool" where
  "isWordChar c \<longleftrightarrow>
     (CHR ''a'' \<le> c \<and> c \<le> CHR ''z'') \<or> (CHR ''A'' \<le> c \<and> c \<le> CHR ''Z'') \<or>
     (CHR ''0'' \<le> c \<and> c \<le> CHR ''9'') \<or> c = CHR ''_''"

text \<open>
  \<^verbatim>\<open>String.prototype.toUpperCase\<close> on one code unit. The source applies it to word
  characters only (the input has passed \<^verbatim>\<open>replace(/\W+/g, ...)\<close>), where it maps
  \<^verbatim>\<open>a-z\<close> to \<^verbatim>\<open>A-Z\<close> and leaves the rest.
\<close>

definition toUpperCase :: "char \<Rightarrow> char" where
  "toUpperCase c =
     (if CHR ''a'' \<le> c \<and> c \<le> CHR ''z'' then char_of (of_char c - (32::nat)) else c)"

text \<open>\<^verbatim>\<open>s.replace(/\W+/g, '_')\<close>: every maximal run of non-word characters becomes one underscore.\<close>

function underscoreNonWord :: "string \<Rightarrow> string" where
  "underscoreNonWord [] = []"
| "underscoreNonWord (c # cs) =
     (if isWordChar c then c # underscoreNonWord cs
      else CHR ''_'' # underscoreNonWord (dropWhile (\<lambda>d. \<not> isWordChar d) cs))"
  by pat_completeness auto
termination
  by (relation "measure length") (auto simp: le_imp_less_Suc length_dropWhile_le)

text \<open>\<^verbatim>\<open>s.replace(/\W+/g, '')\<close>: the non-word characters are dropped.\<close>

definition stripNonWord :: "string \<Rightarrow> string" where
  "stripNonWord s = filter isWordChar s"

text \<open>
  \<^verbatim>\<open>s.replace(/_[^_]/g, m => m.charAt(1).toUpperCase())\<close>: scanning from the left, an
  underscore followed by a character other than an underscore is replaced, with that
  character, by the character's upper case; the scan goes on after the match.
\<close>

fun camelCase :: "string \<Rightarrow> string" where
  "camelCase (a # b # cs) =
     (if a = CHR ''_'' \<and> b \<noteq> CHR ''_'' then toUpperCase b # camelCase cs
      else a # camelCase (b # cs))"
| "camelCase cs = cs"

section \<open>Data model\<close>

text \<open>
  \<^verbatim>\<open>interface Relation { name: string; type: 'table' | 'mview' }\<close>. The fields are
  \<open>rel_name\<close> and \<open>rel_type\<close> here.
\<close>

datatype relation_type = Table | MView

record Relation =
  rel_name :: string
  rel_type :: relation_type

text \<open>
  One row of \<^verbatim>\<open>columnsForRelation\<close>. The source reads the three flags for their
  truthiness only, so they are booleans; \<^verbatim>\<open>domainName\<close> is a string or \<^verbatim>\<open>null\<close>.
\<close>

record Row =
  column :: string
  isGenerated :: bool
  isNullable :: bool
  hasDefault :: bool
  udtName :: string
  domainName :: "string option"

text \<open>
  JavaScript values, as far as lines 98 to 106 read them from \<^verbatim>\<open>config.columnOptions\<close>.
  An object has its own properties and its prototype (an object or \<^verbatim>\<open>null\<close>); a
  function is an object. Property access \<^verbatim>\<open>v[name]\<close> finds an own property or else a
  property inherited along the chain of prototypes, and gives \<^verbatim>\<open>undefined\<close> when there
  is none. \<^verbatim>\<open>__proto__\<close> is the accessor that every object inherits from
  \<^verbatim>\<open>Object.prototype\<close>: unless a data property of that name is found, it gives the
  prototype of the object. Two restrictions: the properties are data properties, so an
  object with a property whose getter throws is outside the model; and a primitive value
  has no properties here, which is right for \<^verbatim>\<open>insert\<close> and \<^verbatim>\<open>update\<close>, the
  properties that the code reads from a primitive (under the type of
  \<^verbatim>\<open>columnOptions\<close> the value found under the name of a relation is an object, as are
  the values that a plain object inherits).
\<close>

datatype Value =
    Undefined
  | Null
  | Boolean bool
  | Number int
  | Str string
  | Obj "(string \<times> Value) list" Value

fun lookup :: "Value \<Rightarrow> string \<Rightarrow> Value option" where
  "lookup (Obj props proto) name =
     (case map_of props name of Some v \<Rightarrow> Some v | None \<Rightarrow> lookup proto name)"
| "lookup v name = None"

fun prototypeOf :: "Value \<Rightarrow> Value" where
  "prototypeOf (Obj props proto) = proto"
| "prototypeOf v = Undefined"

definition get :: "Value \<Rightarrow> string \<Rightarrow> Value" where
  "get v name =
     (case lookup v name of
        Some x \<Rightarrow> x
      | None \<Rightarrow> if name = ''__proto__'' then prototypeOf v else Undefined)"

text \<open>Truthiness (\<^verbatim>\<open>&&\<close>) and being \<^verbatim>\<open>null\<close> or \<^verbatim>\<open>undefined\<close> (\<^verbatim>\<open>??\<close>, \<^verbatim>\<open>?.\<close>).\<close>

fun truthy :: "Value \<Rightarrow> bool" where
  "truthy Undefined = False"
| "truthy Null = False"
| "truthy (Boolean b) = b"
| "truthy (Number n) = (n \<noteq> 0)"
| "truthy (Str s) = (s \<noteq> [])"
| "truthy (Obj props proto) = True"

fun nullish :: "Value \<Rightarrow> bool" where
  "nullish Undefined = True"
| "nullish Null = True"
| "nullish v = False"

text \<open>
  \<^verbatim>\<open>CompleteConfig\<close> (declared in \<^verbatim>\<open>config.ts\<close>, which is not among the sources), as
  far as the code reads it. \<^verbatim>\<open>columnOptions\<close> is an object that the code reads by
  property access with the name of a relation (or \<^verbatim>\<open>"*"\<close>) and then with the name of a
  column; of what it finds it reads \<^verbatim>\<open>insert\<close> and \<^verbatim>\<open>update\<close>, which it compares with
  string constants. An include or exclude rule is \<^verbatim>\<open>'*'\<close> or an array of names.
  \<^verbatim>\<open>customTypesTransform\<close> is one of three strings or a function.
  \<^verbatim>\<open>schemas\<close> lists the object's entries in the order of \<^verbatim>\<open>Object.keys\<close>.
\<close>

datatype Rule = Star | Names "string list"

record SchemaRules =
  include_rule :: Rule
  exclude_rule :: Rule

datatype CustomTypesTransform = My_type | PgMyType | PgMy_type | Function "string \<Rightarrow> string"

record CompleteConfig =
  schemas :: "(string \<times> SchemaRules) list"
  columnOptions :: Value
  customTypesTransform :: CustomTypesTransform

text \<open>
  \<^verbatim>\<open>interface CustomTypes { [name: string]: string }\<close>: the registry of custom types,
  which \<^verbatim>\<open>tsForConfig\<close> creates as \<^verbatim>\<open>{}\<close>. The list holds the own properties of the
  object, each key once, in the order in which the keys were first assigned. (Where a key
  is an array index, \<^verbatim>\<open>Object.entries\<close> lists it before the other keys; the code reads
  the registry with \<^verbatim>\<open>Object.keys(...).length\<close> and with \<^verbatim>\<open>Object.entries(...).map\<close>
  into \<^verbatim>\<open>Object.fromEntries\<close>, which give the same number and the same object for
  either order.) An assignment \<^verbatim>\<open>customTypes[k] = v\<close> of a string \<open>v\<close> replaces the
  value of a key that is present and appends a new key, with one exception: for the key
  \<^verbatim>\<open>__proto__\<close> the assignment runs the setter that \<^verbatim>\<open>{}\<close> inherits from
  \<^verbatim>\<open>Object.prototype\<close>, which does nothing for a value that is neither an object nor
  \<^verbatim>\<open>null\<close>, so the object is left as it is.
\<close>

type_synonym CustomTypes = "(string \<times> string) list"

definition assign :: "string \<Rightarrow> string \<Rightarrow> CustomTypes \<Rightarrow> CustomTypes" where
  "assign k v customTypes =
     (if k = ''__proto__'' then customTypes else AList.update k v customTypes)"

text \<open>
  What the code imports from files that are not among the sources is a parameter of the
  model: \<^verbatim>\<open>tsTypeForPgType\<close> (\<^verbatim>\<open>pgTypes.ts\<close>), \<^verbatim>\<open>enumTypesForEnumData\<close>
  (\<^verbatim>\<open>enums.ts\<close>), \<^verbatim>\<open>header\<close> (\<^verbatim>\<open>header.ts\<close>), and the comparison
  \<^verbatim>\<open>String.prototype.localeCompare\<close> of the runtime. \<open>'en\<close> is the type \<^verbatim>\<open>EnumData\<close>.
\<close>

record 'en Imports =
  tsTypeForPgType :: "string \<Rightarrow> 'en \<Rightarrow> string"
  enumTypesForEnumData :: "'en \<Rightarrow> string"
  header :: string
  localeCompare :: "string \<Rightarrow> string \<Rightarrow> int"

section \<open>The custom type namer\<close>

definition transformCustomType :: "string \<Rightarrow> CompleteConfig \<Rightarrow> string" where
  "transformCustomType customType config =
     (let ctt = customTypesTransform config;
          underscoredType = underscoreNonWord customType;
          legalisedType = stripNonWord customType
      in case ctt of
           My_type \<Rightarrow> legalisedType
         | PgMyType \<Rightarrow> camelCase (''Pg_'' @ legalisedType)
         | PgMy_type \<Rightarrow> ''Pg'' @ map toUpperCase (take 1 underscoredType) @ drop 1 underscoredType
         | Function f \<Rightarrow> f customType)"

section \<open>One column\<close>

text \<open>
  The override of a column:
  \<^verbatim>\<open>(config.columnOptions[rel.name] && config.columnOptions[rel.name][column]) ??
  (config.columnOptions["*"] && config.columnOptions["*"][column])\<close>.
  \<open>andAlso a b\<close> is \<^verbatim>\<open>a && b\<close> and \<open>coalesce a b\<close> is \<^verbatim>\<open>a ?? b\<close>, for operands
  whose evaluation changes nothing; \<open>optionsUnder config key col\<close> is
  \<^verbatim>\<open>config.columnOptions[key] && config.columnOptions[key][col]\<close>.
\<close>

definition andAlso :: "Value \<Rightarrow> Value \<Rightarrow> Value" where
  "andAlso a b = (if truthy a then b else a)"

definition coalesce :: "Value \<Rightarrow> Value \<Rightarrow> Value" where
  "coalesce a b = (if nullish a then b else a)"

definition optionsUnder :: "CompleteConfig \<Rightarrow> string \<Rightarrow> string \<Rightarrow> Value" where
  "optionsUnder config key col =
     andAlso (get (columnOptions config) key) (get (get (columnOptions config) key) col)"

definition columnOptionsFor :: "CompleteConfig \<Rightarrow> string \<Rightarrow> string \<Rightarrow> Value" where
  "columnOptionsFor config relName col =
     coalesce (optionsUnder config relName col) (optionsUnder config ''*'' col)"

text \<open>\<^verbatim>\<open>v?.name\<close>, as in \<^verbatim>\<open>columnOptions?.insert\<close> and \<^verbatim>\<open>columnOptions?.update\<close>.\<close>

definition optionalGet :: "Value \<Rightarrow> string \<Rightarrow> Value" where
  "optionalGet v name = (if nullish v then Undefined else get v name)"

definition isInsertable :: "CompleteConfig \<Rightarrow> Relation \<Rightarrow> Row \<Rightarrow> bool" where
  "isInsertable config rel row \<longleftrightarrow>
     \<not> isGenerated row \<and>
     optionalGet (columnOptionsFor config (rel_name rel) (column row)) ''insert'' \<noteq> Str ''excluded''"

definition isUpdatable :: "CompleteConfig \<Rightarrow> Relation \<Rightarrow> Row \<Rightarrow> bool" where
  "isUpdatable config rel row \<longleftrightarrow>
     \<not> isGenerated row \<and>
     optionalGet (columnOptionsFor config (rel_name rel) (column row)) ''update'' \<noteq> Str ''excluded''"

definition insertablyOptional :: "CompleteConfig \<Rightarrow> Relation \<Rightarrow> Row \<Rightarrow> string" where
  "insertablyOptional config rel row =
     (if isNullable row \<or> hasDefault row \<or>
         optionalGet (columnOptionsFor config (rel_name rel) (column row)) ''insert'' = Str ''optional''
      then ''?'' else '''')"

definition orNull :: "Row \<Rightarrow> string" where
  "orNull row = (if isNullable row then '' | null'' else '''')"

definition orDateString :: "string \<Rightarrow> string" where
  "orDateString type0 =
     (if type0 = ''Date'' then '' | db.DateString''
      else if type0 = ''Date[]'' then '' | db.DateString[]'' else '''')"

definition orDefault :: "Row \<Rightarrow> string" where
  "orDefault row = (if isNullable row \<or> hasDefault row then '' | db.DefaultType'' else '''')"

text \<open>
  Lines 116 to 123: the four cases. \<open>type0\<close> is \<^verbatim>\<open>tsTypeForPgType(udtName, enums)\<close>;
  the result is the new value of \<^verbatim>\<open>type\<close> and the registry after the column.
\<close>

definition isCustom :: "string \<Rightarrow> Row \<Rightarrow> bool" where
  "isCustom type0 row \<longleftrightarrow> type0 = ''any'' \<or> domainName row \<noteq> None"

definition customTypeOf :: "Row \<Rightarrow> string" where
  "customTypeOf row = (case domainName row of Some d \<Rightarrow> d | None \<Rightarrow> udtName row)"

definition classify :: "CompleteConfig \<Rightarrow> string \<Rightarrow> Row \<Rightarrow> CustomTypes \<Rightarrow> string \<times> CustomTypes" where
  "classify config type0 row customTypes =
     (if isCustom type0 row then
        (let customType = customTypeOf row;
             prefixedCustomType = transformCustomType customType config
         in (''c.'' @ prefixedCustomType, assign prefixedCustomType type0 customTypes))
      else (type0, customTypes))"

text \<open>The four arrays that the loop over the rows fills.\<close>

record Shapes =
  selectables :: "string list"
  whereables :: "string list"
  insertables :: "string list"
  updatables :: "string list"

definition selectableLine :: "Row \<Rightarrow> string \<Rightarrow> string" where
  "selectableLine row type1 = column row @ '': '' @ type1 @ orNull row @ '';''"

definition basicWhereableTypes :: "string \<Rightarrow> string \<Rightarrow> string" where
  "basicWhereableTypes type0 type1 =
     type1 @ '' | db.Parameter<'' @ type1 @ ''>'' @ orDateString type0 @
     '' | db.SQLFragment | db.ParentColumn''"

definition whereableLine :: "Row \<Rightarrow> string \<Rightarrow> string \<Rightarrow> string" where
  "whereableLine row type0 type1 =
     column row @ ''?: '' @ basicWhereableTypes type0 type1 @ '' | db.SQLFragment<any, '' @
     basicWhereableTypes type0 type1 @ ''>;''"

definition basicInsertableTypes :: "Row \<Rightarrow> string \<Rightarrow> string \<Rightarrow> string" where
  "basicInsertableTypes row type0 type1 =
     type1 @ '' | db.Parameter<'' @ type1 @ ''>'' @ orDateString type0 @ orNull row @
     orDefault row @ '' | db.SQLFragment''"

definition insertableLine :: "CompleteConfig \<Rightarrow> Relation \<Rightarrow> Row \<Rightarrow> string \<Rightarrow> string \<Rightarrow> string" where
  "insertableLine config rel row type0 type1 =
     column row @ insertablyOptional config rel row @ '': '' @
     basicInsertableTypes row type0 type1 @ '';''"

definition updatableLine :: "Row \<Rightarrow> string \<Rightarrow> string \<Rightarrow> string" where
  "updatableLine row type0 type1 =
     column row @ ''?: '' @ basicInsertableTypes row type0 type1 @ '' | db.SQLFragment<any, '' @
     basicInsertableTypes row type0 type1 @ ''>;''"

text \<open>The body of \<^verbatim>\<open>rows.forEach(row => ...)\<close>, lines 93 to 133.\<close>

definition forEachRow ::
  "'en Imports \<Rightarrow> CompleteConfig \<Rightarrow> Relation \<Rightarrow> 'en \<Rightarrow> Row \<Rightarrow> Shapes \<times> CustomTypes \<Rightarrow> Shapes \<times> CustomTypes"
where
  "forEachRow imports config rel enums row acc =
     (case acc of (shapes, customTypes) \<Rightarrow>
        (let type0 = tsTypeForPgType imports (udtName row) enums;
             (type1, customTypes') = classify config type0 row customTypes
         in (\<lparr> selectables = selectables shapes @ [selectableLine row type1],
               whereables = whereables shapes @ [whereableLine row type0 type1],
               insertables = insertables shapes @
                 (if isInsertable config rel row then [insertableLine config rel row type0 type1] else []),
               updatables = updatables shapes @
                 (if isUpdatable config rel row then [updatableLine row type0 type1] else []) \<rparr>,
             customTypes')))"

definition emptyShapes :: Shapes where
  "emptyShapes = \<lparr> selectables = [], whereables = [], insertables = [], updatables = [] \<rparr>"

definition forEachRows ::
  "'en Imports \<Rightarrow> CompleteConfig \<Rightarrow> Relation \<Rightarrow> 'en \<Rightarrow> Row list \<Rightarrow> CustomTypes \<Rightarrow> Shapes \<times> CustomTypes"
where
  "forEachRows imports config rel enums rows customTypes =
     fold (forEachRow imports config rel enums) rows (emptyShapes, customTypes)"

section \<open>The pool, the catalog and asynchronous tasks\<close>

text \<open>
  The pool is modelled by the log of what was done with it: its creation
  (\<^verbatim>\<open>new pg.Pool(db)\<close>), every query, and \<^verbatim>\<open>pool.end()\<close>. The catalog gives the
  outcome of each query: the rows, or the error the query's promise rejects with.
  \<^verbatim>\<open>enumDataForSchema\<close> (\<^verbatim>\<open>enums.ts\<close>, not among the sources) queries the pool
  too; it is one entry of the log.
\<close>

datatype Query =
  RelationsQuery string
| ColumnsQuery relation_type string string
| UniqueIndexesQuery string
| EnumsQuery string

datatype Event = PoolNew | PoolQuery Query | PoolEnd

record ('e, 'en) Catalog =
  relationRows :: "string \<Rightarrow> 'e + Relation list"
  columnRows :: "relation_type \<Rightarrow> string \<Rightarrow> string \<Rightarrow> 'e + Row list"
  uniqueIndexRows :: "string \<Rightarrow> 'e + string list"
  enumData :: "string \<Rightarrow> 'e + 'en"

text \<open>
  The objects the asynchronous functions share and change: the registry
  \<^verbatim>\<open>customTypes\<close> and the pool.
\<close>

record World =
  customTypes :: CustomTypes
  pool :: "Event list"

text \<open>
  An asynchronous function is a function from the world to an outcome and the world it
  leaves: \<^term>\<open>Inr x\<close> when its promise resolves with \<open>x\<close>, \<^term>\<open>Inl e\<close> when it
  rejects with \<open>e\<close>. \<open>await\<close> passes a rejection on.
\<close>

type_synonym ('e, 'a) Async = "World \<Rightarrow> ('e + 'a) \<times> World"

definition resolve :: "'a \<Rightarrow> ('e, 'a) Async" where
  "resolve x w = (Inr x, w)"

definition await :: "('e, 'a) Async \<Rightarrow> ('a \<Rightarrow> ('e, 'b) Async) \<Rightarrow> ('e, 'b) Async" where
  "await m k w = (case m w of (Inl e, w') \<Rightarrow> (Inl e, w') | (Inr x, w') \<Rightarrow> k x w')"

definition poolQuery :: "Query \<Rightarrow> 'e + 'a \<Rightarrow> ('e, 'a) Async" where
  "poolQuery q outcome w = (outcome, w\<lparr> pool := pool w @ [PoolQuery q] \<rparr>)"

text \<open>
  \<^verbatim>\<open>Promise.all(xs.map(async x => f x))\<close>. The callbacks run concurrently; which
  one continues first depends on when the queries answer. The model runs each callback
  as one block and takes the order of the blocks as a parameter \<open>order\<close>, a list of
  indices into \<open>xs\<close>: the callbacks it names run first, in its order, then the others in
  the order of \<open>xs\<close>. (A callback writes the registry in one synchronous section, the
  loop over the rows, so the order of the blocks is the order of these sections.) A
  rejected callback does not stop the others. The promise rejects with the first
  rejection, and otherwise resolves with the results in the order of \<open>xs\<close>.
\<close>

definition completionOrder :: "nat \<Rightarrow> nat list \<Rightarrow> nat list" where
  "completionOrder n order =
     remdups (filter (\<lambda>i. i < n) order) @ filter (\<lambda>i. i \<notin> set order) [0..<n]"

fun runCallbacks ::
  "('a \<Rightarrow> ('e, 'r) Async) \<Rightarrow> 'a list \<Rightarrow> nat list \<Rightarrow> World \<Rightarrow> (nat \<times> ('e + 'r)) list \<times> World"
where
  "runCallbacks f xs [] w = ([], w)"
| "runCallbacks f xs (i # is) w =
     (case f (xs ! i) w of (r, w1) \<Rightarrow>
        (case runCallbacks f xs is w1 of (rs, w2) \<Rightarrow> ((i, r) # rs, w2)))"

fun rejections :: "('e + 'r) list \<Rightarrow> 'e list" where
  "rejections [] = []"
| "rejections (Inl e # rs) = e # rejections rs"
| "rejections (Inr x # rs) = rejections rs"

fun resolutions :: "('e + 'r) list \<Rightarrow> 'r list" where
  "resolutions [] = []"
| "resolutions (Inl e # rs) = resolutions rs"
| "resolutions (Inr x # rs) = x # resolutions rs"

definition promiseAll :: "nat list \<Rightarrow> ('a \<Rightarrow> ('e, 'r) Async) \<Rightarrow> 'a list \<Rightarrow> ('e, 'r list) Async" where
  "promiseAll order f xs w =
     (case runCallbacks f xs (completionOrder (length xs) order) w of (settled, w') \<Rightarrow>
        (case rejections (map snd settled) of
           e # _ \<Rightarrow> (Inl e, w')
         | [] \<Rightarrow> (Inr (resolutions (map snd (sort_key fst settled))), w')))"

section \<open>One relation\<close>

text \<open>
  Lines 18 to 76: \<^verbatim>\<open>relationsInSchema\<close> and \<^verbatim>\<open>columnsForRelation\<close> send one
  query each and return its rows. The SQL text is the catalog's side; the query for the
  columns differs with \<^verbatim>\<open>rel.type\<close>, which is an argument of \<^const>\<open>columnRows\<close>.
\<close>

definition relationsInSchema :: "('e, 'en) Catalog \<Rightarrow> string \<Rightarrow> ('e, Relation list) Async" where
  "relationsInSchema catalog schemaName =
     poolQuery (RelationsQuery schemaName) (relationRows catalog schemaName)"

definition columnsForRelation :: "('e, 'en) Catalog \<Rightarrow> Relation \<Rightarrow> string \<Rightarrow> ('e, Row list) Async" where
  "columnsForRelation catalog rel schemaName =
     poolQuery (ColumnsQuery (rel_type rel) (rel_name rel) schemaName)
       (columnRows catalog (rel_type rel) (rel_name rel) schemaName)"

text \<open>Lines 163 to 165: the type \<^verbatim>\<open>UniqueIndex\<close>.\<close>

definition uniqueIndexType :: "string list \<Rightarrow> string" where
  "uniqueIndexType uniqueIndexes =
     (if length uniqueIndexes > 0
      then join '' | '' (map (\<lambda>indexname. apostrophe @ indexname @ apostrophe) uniqueIndexes)
      else ''never'')"

text \<open>Lines 147 to 170: the template \<^verbatim>\<open>tableDef\<close>.\<close>

definition tableDef :: "Relation \<Rightarrow> Shapes \<Rightarrow> string list \<Rightarrow> string" where
  "tableDef rel shapes uniqueIndexes =
     ''\<newline>export namespace '' @ rel_name rel @ '' {\<newline>'' @
     ''  export type Table = '' @ apostrophe @ rel_name rel @ apostrophe @ '';\<newline>'' @
     ''  export interface Selectable {\<newline>    '' @
     join ''\<newline>    '' (selectables shapes) @ ''\<newline>  }\<newline>'' @
     ''  export interface Whereable {\<newline>    '' @
     join ''\<newline>    '' (whereables shapes) @ ''\<newline>  }\<newline>'' @
     ''  export interface Insertable {\<newline>    '' @
     join ''\<newline>    '' (insertables shapes) @ ''\<newline>  }\<newline>'' @
     ''  export interface Updatable {\<newline>    '' @
     join ''\<newline>    '' (updatables shapes) @ ''\<newline>  }\<newline>'' @
     ''  export interface JSONSelectable extends JSONSelectableFromSelectable<Selectable> { }\<newline>'' @
     ''  export type UniqueIndex = '' @ uniqueIndexType uniqueIndexes @ '';\<newline>'' @
     ''  export type Column = keyof Selectable;\<newline>'' @
     ''  export type OnlyCols<T extends readonly Column[]> = Pick<Selectable, T[number]>;\<newline>'' @
     ''  export type SQLExpression = db.GenericSQLExpression | db.ColumnNames<Updatable | (keyof Updatable)[]> | db.ColumnValues<Updatable> | Table | Whereable | Column;\<newline>'' @
     ''  export type SQL = SQLExpression | SQLExpression[];\<newline>'' @
     ''}''"

text \<open>
  \<^verbatim>\<open>definitionForTableInSchema\<close> (\<^verbatim>\<open>tsForConfig\<close> imports it under the name
  \<^verbatim>\<open>definitionForRelationInSchema\<close>): the query for the columns, the loop over the rows,
  which writes the registry, the query for the unique indexes, and the text.
\<close>

definition definitionForTableInSchema ::
  "'en Imports \<Rightarrow> ('e, 'en) Catalog \<Rightarrow> Relation \<Rightarrow> string \<Rightarrow> 'en \<Rightarrow> CompleteConfig \<Rightarrow> ('e, string) Async"
where
  "definitionForTableInSchema imports catalog rel schemaName enums config =
     await (columnsForRelation catalog rel schemaName) (\<lambda>rows w.
       (case forEachRows imports config rel enums rows (customTypes w) of
          (shapes, customTypes') \<Rightarrow>
            await (poolQuery (UniqueIndexesQuery (rel_name rel)) (uniqueIndexRows catalog (rel_name rel)))
              (\<lambda>uniqueIndexes. resolve (tableDef rel shapes uniqueIndexes))
              (w\<lparr> customTypes := customTypes' \<rparr>)))"

section \<open>Types across the relations\<close>

text \<open>
  Lines 186 to 206: \<^verbatim>\<open>mappedUnion\<close>, the lookup type of one role (the callback of
  lines 202 to 205) and the template of \<^verbatim>\<open>crossTableTypesForTables\<close>.
\<close>

definition mappedUnion :: "Relation list \<Rightarrow> (string \<Rightarrow> string) \<Rightarrow> string" where
  "mappedUnion arr fn =
     (if length arr = 0 then ''any'' else join '' | '' (map (\<lambda>rel. fn (rel_name rel)) arr))"

definition forTableType :: "Relation list \<Rightarrow> string \<Rightarrow> string" where
  "forTableType relations thingable =
     ''\<newline>export type '' @ thingable @ ''ForTable<T extends Table> = '' @
     (if length relations = 0 then ''any''
      else ''{'' @
        join [] (map (\<lambda>rel. ''\<newline>  '' @ rel_name rel @ '': '' @ rel_name rel @ ''.'' @ thingable @ '';'')
          relations) @
        ''\<newline>}[T]'') @
     '';\<newline>''"

definition crossTableTypesForTables :: "Relation list \<Rightarrow> string" where
  "crossTableTypesForTables relations =
     (if length relations = 0
      then ''\<newline>// `never` rather than `any` types would be more accurate in this no-tables case, but they stop `shortcuts.ts` compiling\<newline>''
      else []) @
     ''\<newline>export type Table = '' @ mappedUnion relations (\<lambda>name. name @ ''.Table'') @
     '';\<newline>export type Selectable = '' @ mappedUnion relations (\<lambda>name. name @ ''.Selectable'') @
     '';\<newline>export type Whereable = '' @ mappedUnion relations (\<lambda>name. name @ ''.Whereable'') @
     '';\<newline>export type Insertable = '' @ mappedUnion relations (\<lambda>name. name @ ''.Insertable'') @
     '';\<newline>export type Updatable = '' @ mappedUnion relations (\<lambda>name. name @ ''.Updatable'') @
     '';\<newline>export type UniqueIndex = '' @ mappedUnion relations (\<lambda>name. name @ ''.UniqueIndex'') @
     '';\<newline>export type Column = '' @ mappedUnion relations (\<lambda>name. name @ ''.Column'') @
     '';\<newline>export type AllTables = ['' @
     join '', '' (map (\<lambda>rel. rel_name rel @ ''.Table'') (filter (\<lambda>rel. rel_type rel = Table) relations)) @
     ''];\<newline>export type AllMaterializedViews = ['' @
     join '', '' (map (\<lambda>rel. rel_name rel @ ''.Table'') (filter (\<lambda>rel. rel_type rel = MView) relations)) @
     ''];\<newline>\<newline>'' @
     join [] (map (forTableType relations)
       [''Selectable'', ''Whereable'', ''Insertable'', ''Updatable'', ''UniqueIndex'', ''Column'', ''SQL''])"

section \<open>The output file\<close>

text \<open>\<^verbatim>\<open>canaryVersion\<close> is 101.\<close>

definition versionCanary :: string where
  "versionCanary =
     ''\<newline>// got a type error on schemaVersionCanary below? update by running `npx zapatos`\<newline>'' @
     ''export interface schemaVersionCanary extends db.SchemaVersionCanary { version: 101 }\<newline>''"

text \<open>
  Lines 233 to 237, \<^verbatim>\<open>declareModule\<close>. In
  \<^verbatim>\<open>declarations.replace(/^(?=[ \t]*\S)/gm, '  ')\<close> two spaces are put at the start
  of the text and after every line terminator, where a character that is not white space
  follows the spaces and tabs there. Of the white space and the line terminators of
  JavaScript, these are the code units below 256.
\<close>

definition isLineTerminator :: "char \<Rightarrow> bool" where
  "isLineTerminator c \<longleftrightarrow> c = CHR 0x0A \<or> c = CHR 0x0D"

definition isWhiteSpace :: "char \<Rightarrow> bool" where
  "isWhiteSpace c \<longleftrightarrow>
     c = CHR 0x09 \<or> c = CHR 0x0A \<or> c = CHR 0x0B \<or> c = CHR 0x0C \<or> c = CHR 0x0D \<or>
     c = CHR 0x20 \<or> c = CHR 0xA0"

definition lineHasText :: "string \<Rightarrow> bool" where
  "lineHasText s =
     (case dropWhile (\<lambda>c. c = CHR 0x20 \<or> c = CHR 0x09) s of
        [] \<Rightarrow> False
      | c # _ \<Rightarrow> \<not> isWhiteSpace c)"

fun indentAfterTerminators :: "string \<Rightarrow> string" where
  "indentAfterTerminators [] = []"
| "indentAfterTerminators (c # cs) =
     c # (if isLineTerminator c \<and> lineHasText cs then ''  '' else []) @ indentAfterTerminators cs"

definition indentLines :: "string \<Rightarrow> string" where
  "indentLines s = (if lineHasText s then ''  '' else []) @ indentAfterTerminators s"

definition declareModule :: "string \<Rightarrow> string \<Rightarrow> string" where
  "declareModule module declarations =
     ''\<newline>declare module '' @ apostrophe @ module @ apostrophe @ '' {\<newline>'' @
     indentLines declarations @
     ''\<newline>}\<newline>''"

text \<open>
  Lines 239 to 253: \<^verbatim>\<open>customTypeHeader\<close> and \<^verbatim>\<open>sourceFilesForCustomTypes\<close>. The
  object that \<^verbatim>\<open>Object.fromEntries\<close> builds is given by the list of its properties, one
  for each entry of the registry.
\<close>

definition customTypeHeader :: string where
  "customTypeHeader =
     ''/*\<newline>** Please edit this file as needed **\<newline>'' @
     ''It's been generated by Zapatos as a custom type definition placeholder, and won't be overwritten\<newline>'' @
     ''*/\<newline>''"

definition sourceFilesForCustomTypes :: "CustomTypes \<Rightarrow> (string \<times> string) list" where
  "sourceFilesForCustomTypes registry =
     map (\<lambda>(name, baseType).
            (name,
             customTypeHeader @ declareModule ''zapatos/custom''
               ((if baseType = ''db.JSONValue'' then ''import type * as db from 'zapatos/db';\<newline>'' else []) @
                ''export type '' @ name @ '' = '' @ baseType @
                '';  // replace with your custom type or interface as desired'')))
       registry"

text \<open>
  \<^verbatim>\<open>Array.prototype.sort(compareFn)\<close> is stable; for a comparison that is a total
  preorder its result is that of this insertion sort.
\<close>

fun insortBy :: "('a \<Rightarrow> 'a \<Rightarrow> int) \<Rightarrow> 'a \<Rightarrow> 'a list \<Rightarrow> 'a list" where
  "insortBy cmp x [] = [x]"
| "insortBy cmp x (y # ys) = (if cmp x y \<le> 0 then x # y # ys else y # insortBy cmp x ys)"

definition sortBy :: "('a \<Rightarrow> 'a \<Rightarrow> int) \<Rightarrow> 'a list \<Rightarrow> 'a list" where
  "sortBy cmp xs = foldr (insortBy cmp) xs []"

text \<open>
  The orders in which the callbacks of the two \<^verbatim>\<open>Promise.all\<close> run: the schemas,
  and the relations of each schema.
\<close>

record Schedule =
  schemaOrder :: "nat list"
  tableOrder :: "string \<Rightarrow> nat list"

text \<open>\<^verbatim>\<open>rules.include === '*' || rules.include.indexOf(rel.name) >= 0\<close>.\<close>

definition included :: "SchemaRules \<Rightarrow> Relation \<Rightarrow> bool" where
  "included rules rel \<longleftrightarrow>
     (case include_rule rules of Star \<Rightarrow> True | Names names \<Rightarrow> rel_name rel \<in> set names)"

text \<open>Lines 264 to 267: the relations of a schema that the rules keep.\<close>

definition tablesForRules :: "('e, 'en) Catalog \<Rightarrow> string \<Rightarrow> SchemaRules \<Rightarrow> ('e, Relation list) Async" where
  "tablesForRules catalog schema rules =
     (case exclude_rule rules of
        Star \<Rightarrow> resolve []
      | Names excluded \<Rightarrow>
          await (relationsInSchema catalog schema) (\<lambda>rels.
            resolve (filter (\<lambda>rel. rel_name rel \<notin> set excluded) (filter (included rules) rels))))"

text \<open>
  \<^verbatim>\<open>enumDataForSchema\<close>, as one query, and the text \<^verbatim>\<open>schemaDef\<close> of lines 271 to
  275, with \<^verbatim>\<open>tableDefs.sort()\<close>.
\<close>

definition enumDataForSchema :: "('e, 'en) Catalog \<Rightarrow> string \<Rightarrow> ('e, 'en) Async" where
  "enumDataForSchema catalog schema = poolQuery (EnumsQuery schema) (enumData catalog schema)"

definition schemaDefText :: "'en Imports \<Rightarrow> string \<Rightarrow> 'en \<Rightarrow> string list \<Rightarrow> string" where
  "schemaDefText imports schema enums tableDefs =
     ''\<newline>/* === schema: '' @ schema @ '' === */\<newline>'' @
     ''\<newline>/* --- enums --- */\<newline>'' @
     enumTypesForEnumData imports enums @
     ''\<newline>\<newline>/* --- tables --- */\<newline>'' @
     join ''\<newline>'' (sort tableDefs)"

text \<open>Lines 261 to 278: the callback of one schema.\<close>

definition schemaTask ::
  "'en Imports \<Rightarrow> ('e, 'en) Catalog \<Rightarrow> Schedule \<Rightarrow> CompleteConfig \<Rightarrow> string \<times> SchemaRules \<Rightarrow>
   ('e, string \<times> Relation list) Async"
where
  "schemaTask imports catalog schedule config entry =
     (case entry of (schema, rules) \<Rightarrow>
        await (tablesForRules catalog schema rules) (\<lambda>tables.
        await (enumDataForSchema catalog schema) (\<lambda>enums.
        await (promiseAll (tableOrder schedule schema)
                 (\<lambda>table. definitionForTableInSchema imports catalog table schema enums config) tables)
          (\<lambda>tableDefs. resolve (schemaDefText imports schema enums tableDefs, tables)))))"

text \<open>Lines 284 to 291: the text \<^verbatim>\<open>ts\<close>.\<close>

definition tsText :: "'en Imports \<Rightarrow> bool \<Rightarrow> string list \<Rightarrow> Relation list \<Rightarrow> string" where
  "tsText imports hasCustomTypes schemaDefs allTables =
     header imports @ declareModule ''zapatos/schema''
       (''\<newline>import type * as db from 'zapatos/db';\<newline>'' @
        (if hasCustomTypes then ''import type * as c from 'zapatos/custom';\<newline>'' else []) @
        versionCanary @
        join ''\<newline>\<newline>'' schemaDefs @
        ''\<newline>\<newline>/* === cross-table types === */\<newline>'' @
        crossTableTypesForTables allTables)"

text \<open>
  \<^verbatim>\<open>tsForConfig\<close>: the pool and the registry are created, the schemas are worked
  on, the text is put together, and the pool is ended. The result is the outcome of the
  promise and the world at its end. Creating and ending the pool are taken to succeed.
\<close>

definition tsForConfig ::
  "'en Imports \<Rightarrow> ('e, 'en) Catalog \<Rightarrow> Schedule \<Rightarrow> CompleteConfig \<Rightarrow>
   ('e + string \<times> (string \<times> string) list) \<times> World"
where
  "tsForConfig imports catalog schedule config =
     await (promiseAll (schemaOrder schedule) (schemaTask imports catalog schedule config) (schemas config))
       (\<lambda>schemaData w.
          (let schemaDefs = sort (map fst schemaData);
               schemaTables = map snd schemaData;
               allTables = sortBy (\<lambda>a b. localeCompare imports (rel_name a) (rel_name b)) (concat schemaTables);
               hasCustomTypes = length (map fst (customTypes w)) > 0;
               ts = tsText imports hasCustomTypes schemaDefs allTables;
               customTypeSourceFiles = sourceFilesForCustomTypes (customTypes w)
           in (Inr (ts, customTypeSourceFiles), w\<lparr> pool := pool w @ [PoolEnd] \<rparr>)))
       \<lparr> customTypes = [], pool = [PoolNew] \<rparr>"

section \<open>Notions used in the statements\<close>

text \<open>The type that \<^verbatim>\<open>tsTypeForPgType\<close> gives for the base type of a column.\<close>

definition baseType :: "'en Imports \<Rightarrow> 'en \<Rightarrow> Row \<Rightarrow> string" where
  "baseType imports enums row = tsTypeForPgType imports (udtName row) enums"

text \<open>The type of a column in the four shapes: the value of \<^verbatim>\<open>type\<close> after line 123.\<close>

definition resolvedType :: "'en Imports \<Rightarrow> CompleteConfig \<Rightarrow> 'en \<Rightarrow> Row \<Rightarrow> string" where
  "resolvedType imports config enums row =
     (if isCustom (baseType imports enums row) row
      then ''c.'' @ transformCustomType (customTypeOf row) config
      else baseType imports enums row)"

text \<open>
  The registrations of a list of columns, in the order of the columns: for each column of
  the cases 2 to 4, the transformed key and the placeholder type.
\<close>

definition registrations :: "'en Imports \<Rightarrow> CompleteConfig \<Rightarrow> 'en \<Rightarrow> Row list \<Rightarrow> (string \<times> string) list" where
  "registrations imports config enums rows =
     map (\<lambda>row. (transformCustomType (customTypeOf row) config, baseType imports enums row))
       (filter (\<lambda>row. isCustom (baseType imports enums row) row) rows)"

text \<open>
  The registrations that write the registry: a registration under the key
  \<^verbatim>\<open>__proto__\<close> leaves it as it is.
\<close>

definition written :: "(string \<times> string) list \<Rightarrow> (string \<times> string) list" where
  "written regs = filter (\<lambda>p. fst p \<noteq> ''__proto__'') regs"


text \<open>
  A type map as \<^verbatim>\<open>pgTypes.ts\<close> has it for three base types, any other type being
  unknown, with no enums, an empty header and a comparison of names that ignores the case
  of the letters \<^verbatim>\<open>A-Z\<close>; it is used in the examples.
\<close>

definition toLowerCase :: "char \<Rightarrow> char" where
  "toLowerCase c =
     (if CHR ''A'' \<le> c \<and> c \<le> CHR ''Z'' then char_of (of_char c + (32::nat)) else c)"

definition exampleImports :: "unit Imports" where
  "exampleImports =
     \<lparr> tsTypeForPgType = (\<lambda>udt enums.
         if udt = ''int4'' then ''number'' else if udt = ''text'' then ''string''
         else if udt = ''jsonb'' then ''db.JSONValue'' else ''any''),
       enumTypesForEnumData = (\<lambda>enums. []),
       header = [],
       localeCompare = (\<lambda>a b.
         if map toLowerCase a < map toLowerCase b then - 1
         else if map toLowerCase b < map toLowerCase a then 1 else 0) \<rparr>"

text \<open>
  The standard objects that a plain object (an object literal, the result of
  \<^verbatim>\<open>JSON.parse\<close>) inherits from, as far as three property reads from a plain object
  reach, which is how far lines 98 to 106 read. The standard objects refer to each other
  in cycles (\<^verbatim>\<open>Object.prototype.constructor.prototype\<close> is \<^verbatim>\<open>Object.prototype\<close>),
  so the description stops there: \<open>builtin\<close> stands for a built-in function or object
  that the second read finds, of which the third read finds neither \<^verbatim>\<open>insert\<close> nor
  \<^verbatim>\<open>update\<close>. The properties of \<^verbatim>\<open>Object\<close> are those of ECMAScript 2019, the edition
  of \<^verbatim>\<open>Object.fromEntries\<close>. The accessors \<^verbatim>\<open>caller\<close> and \<^verbatim>\<open>arguments\<close> of
  \<^verbatim>\<open>Function.prototype\<close>, whose getters throw, are left out.
\<close>

definition builtin :: Value where
  "builtin = Obj [] Null"

definition functionPrototype :: Value where
  "functionPrototype =
     Obj ((''length'', Number 0) # (''name'', Str []) #
          map (\<lambda>name. (name, builtin)) [''apply'', ''bind'', ''call'', ''constructor'', ''toString''])
       (Obj (map (\<lambda>name. (name, builtin))
          [''constructor'', ''__defineGetter__'', ''__defineSetter__'', ''hasOwnProperty'',
           ''__lookupGetter__'', ''__lookupSetter__'', ''isPrototypeOf'', ''propertyIsEnumerable'',
           ''toString'', ''valueOf'', ''toLocaleString'']) Null)"

definition builtinFunction :: "string \<Rightarrow> int \<Rightarrow> Value" where
  "builtinFunction name len = Obj [(''length'', Number len), (''name'', Str name)] functionPrototype"

definition objectConstructor :: Value where
  "objectConstructor =
     Obj ((''length'', Number 1) # (''name'', Str ''Object'') #
          map (\<lambda>name. (name, builtin))
            [''prototype'', ''assign'', ''getOwnPropertyDescriptor'', ''getOwnPropertyDescriptors'',
             ''getOwnPropertyNames'', ''getOwnPropertySymbols'', ''is'', ''preventExtensions'', ''seal'',
             ''create'', ''defineProperties'', ''defineProperty'', ''freeze'', ''getPrototypeOf'',
             ''setPrototypeOf'', ''isExtensible'', ''isFrozen'', ''isSealed'', ''keys'', ''entries'',
             ''fromEntries'', ''values''])
       functionPrototype"

definition objectPrototype :: Value where
  "objectPrototype =
     Obj ((''constructor'', objectConstructor) #
          map (\<lambda>(name, len). (name, builtinFunction name len))
            [(''__defineGetter__'', 2), (''__defineSetter__'', 2), (''hasOwnProperty'', 1),
             (''__lookupGetter__'', 1), (''__lookupSetter__'', 1), (''isPrototypeOf'', 1),
             (''propertyIsEnumerable'', 1), (''toString'', 0), (''valueOf'', 0), (''toLocaleString'', 0)])
       Null"

text \<open>A plain object with the given own properties.\<close>

definition plainObject :: "(string \<times> Value) list \<Rightarrow> Value" where
  "plainObject props = Obj props objectPrototype"

text \<open>The names under which a plain object with no own property has an inherited one.\<close>

definition inheritedNames :: "string list" where
  "inheritedNames =
     [''__proto__'', ''constructor'', ''__defineGetter__'', ''__defineSetter__'', ''hasOwnProperty'',
      ''__lookupGetter__'', ''__lookupSetter__'', ''isPrototypeOf'', ''propertyIsEnumerable'',
      ''toString'', ''valueOf'', ''toLocaleString'']"

definition exampleConfig :: CompleteConfig where
  "exampleConfig =
     \<lparr> schemas = [(''public'', \<lparr> include_rule = Star, exclude_rule = Names [] \<rparr>)],
       columnOptions = plainObject [],
       customTypesTransform = PgMy_type \<rparr>"

text \<open>
  A configuration with overrides for the relation \<^verbatim>\<open>users\<close> and for the wildcard, and
  a catalog with three relations of one column each; they are used in the examples.
\<close>

definition overrideConfig :: CompleteConfig where
  "overrideConfig =
     \<lparr> schemas = [(''public'', \<lparr> include_rule = Names [''users'', ''logs''], exclude_rule = Names [''logs''] \<rparr>)],
       columnOptions = plainObject
         [(''users'', plainObject [(''created'', plainObject [(''update'', Str ''excluded'')])]),
          (''*'', plainObject
             [(''created'', plainObject [(''insert'', Str ''excluded'')]),
              (''id'', plainObject [(''insert'', Str ''optional'')]),
              (''name'', plainObject [(''insert'', Str ''excluded''), (''update'', Str ''excluded'')])])],
       customTypesTransform = PgMy_type \<rparr>"

definition exampleCatalog :: "(string, unit) Catalog" where
  "exampleCatalog =
     \<lparr> relationRows = (\<lambda>schema. Inr
         [\<lparr> rel_name = ''logs'', rel_type = Table \<rparr>, \<lparr> rel_name = ''users'', rel_type = Table \<rparr>,
          \<lparr> rel_name = ''visits'', rel_type = MView \<rparr>]),
       columnRows = (\<lambda>kind name schema. Inr
         [\<lparr> column = ''id'', isGenerated = False, isNullable = False, hasDefault = False,
            udtName = ''int4'', domainName = None \<rparr>]),
       uniqueIndexRows = (\<lambda>name. Inr []),
       enumData = (\<lambda>schema. Inr ()) \<rparr>"

text \<open>The value a promise resolves with, if it does.\<close>

definition resolved :: "'e + 'a \<Rightarrow> 'a option" where
  "resolved r = (case r of Inl e \<Rightarrow> None | Inr x \<Rightarrow> Some x)"

text \<open>
  The text of a relation, where the two queries for it answer; whether a relation has a
  column of the cases 2 to 4 whose key is not \<^verbatim>\<open>__proto__\<close>, so that the registry gets
  an entry; the relations of a schema that the rules keep, where the
  query for them answers; what the callback of a schema resolves with, and whether it
  writes the registry; and the text of the whole output. They are functions of the
  catalog, the configuration and the imported functions alone.
\<close>

definition relationText ::
  "'en Imports \<Rightarrow> ('e, 'en) Catalog \<Rightarrow> CompleteConfig \<Rightarrow> string \<Rightarrow> 'en \<Rightarrow> Relation \<Rightarrow> string option"
where
  "relationText imports catalog config schemaName enums rel =
     (case columnRows catalog (rel_type rel) (rel_name rel) schemaName of
        Inl e \<Rightarrow> None
      | Inr rows \<Rightarrow>
          (case uniqueIndexRows catalog (rel_name rel) of
             Inl e \<Rightarrow> None
           | Inr uniqueIndexes \<Rightarrow>
               Some (tableDef rel (fst (forEachRows imports config rel enums rows [])) uniqueIndexes)))"

definition relationRegisters ::
  "'en Imports \<Rightarrow> ('e, 'en) Catalog \<Rightarrow> CompleteConfig \<Rightarrow> string \<Rightarrow> 'en \<Rightarrow> Relation \<Rightarrow> bool"
where
  "relationRegisters imports catalog config schemaName enums rel =
     (case columnRows catalog (rel_type rel) (rel_name rel) schemaName of
        Inl e \<Rightarrow> False
      | Inr rows \<Rightarrow> written (registrations imports config enums rows) \<noteq> [])"

definition selectedTables :: "('e, 'en) Catalog \<Rightarrow> string \<Rightarrow> SchemaRules \<Rightarrow> Relation list option" where
  "selectedTables catalog schema rules =
     (case exclude_rule rules of
        Star \<Rightarrow> Some []
      | Names excluded \<Rightarrow>
          (case relationRows catalog schema of
             Inl e \<Rightarrow> None
           | Inr rels \<Rightarrow> Some (filter (\<lambda>rel. rel_name rel \<notin> set excluded) (filter (included rules) rels))))"

definition schemaOutcome ::
  "'en Imports \<Rightarrow> ('e, 'en) Catalog \<Rightarrow> CompleteConfig \<Rightarrow> string \<times> SchemaRules \<Rightarrow>
   (string \<times> Relation list) option"
where
  "schemaOutcome imports catalog config entry =
     (case entry of (schema, rules) \<Rightarrow>
        (case selectedTables catalog schema rules of
           None \<Rightarrow> None
         | Some tables \<Rightarrow>
             (case enumData catalog schema of
                Inl e \<Rightarrow> None
              | Inr enums \<Rightarrow>
                  (case those (map (relationText imports catalog config schema enums) tables) of
                     None \<Rightarrow> None
                   | Some tableDefs \<Rightarrow> Some (schemaDefText imports schema enums tableDefs, tables)))))"

definition schemaRegisters ::
  "'en Imports \<Rightarrow> ('e, 'en) Catalog \<Rightarrow> CompleteConfig \<Rightarrow> string \<times> SchemaRules \<Rightarrow> bool"
where
  "schemaRegisters imports catalog config entry =
     (case entry of (schema, rules) \<Rightarrow>
        (case selectedTables catalog schema rules of
           None \<Rightarrow> False
         | Some tables \<Rightarrow>
             (case enumData catalog schema of
                Inl e \<Rightarrow> False
              | Inr enums \<Rightarrow> (\<exists>rel \<in> set tables. relationRegisters imports catalog config schema enums rel))))"




definition outputText :: "'en Imports \<Rightarrow> ('e, 'en) Catalog \<Rightarrow> CompleteConfig \<Rightarrow> string option" where
  "outputText imports catalog config =
     (case those (map (schemaOutcome imports catalog config) (schemas config)) of
        None \<Rightarrow> None
      | Some schemaData \<Rightarrow>
          Some (tsText imports (\<exists>entry \<in> set (schemas config). schemaRegisters imports catalog config entry)
            (sort (map fst schemaData))
            (sortBy (\<lambda>a b. localeCompare imports (rel_name a) (rel_name b)) (concat (map snd schemaData)))))"

text \<open>
  The schedule in which every callback runs in the order of its array; a catalog whose
  query for the relations is rejected; a catalog with the relations \<^verbatim>\<open>apple\<close> and
  \<^verbatim>\<open>Zebra\<close>, in the order of the query (\<^verbatim>\<open>ORDER BY "lname", "name"\<close>); and a catalog
  with two relations that each have a column of a domain named \<^verbatim>\<open>amount\<close>, over
  \<^verbatim>\<open>int4\<close> in the one and over \<^verbatim>\<open>text\<close> in the other, with the two orders in which
  their callbacks can run; and a catalog in which the relation \<^verbatim>\<open>users\<close> has two unique
  indexes and the others have none.
\<close>

definition programOrder :: Schedule where
  "programOrder = \<lparr> schemaOrder = [], tableOrder = (\<lambda>schema. []) \<rparr>"

definition failingCatalog :: "(string, unit) Catalog" where
  "failingCatalog = exampleCatalog\<lparr> relationRows := (\<lambda>schema. Inl ''connection refused'') \<rparr>"











section \<open>The loop over the columns\<close>

lemma classify_fst:
  "fst (classify config (baseType imports enums row) row registry) = resolvedType imports config enums row"
  by (simp add: classify_def resolvedType_def Let_def)

lemma classify_snd:
  "snd (classify config (baseType imports enums row) row registry) =
     fold (\<lambda>(k, v). assign k v) (registrations imports config enums [row]) registry"
  by (simp add: classify_def registrations_def Let_def)

lemma registrations_Cons:
  "registrations imports config enums (row # rows) =
     registrations imports config enums [row] @ registrations imports config enums rows"
  by (simp add: registrations_def)

lemma forEachRow_eq:
  "forEachRow imports config rel enums row (shapes, registry) =
     (\<lparr> selectables = selectables shapes @ [selectableLine row (resolvedType imports config enums row)],
        whereables = whereables shapes @
          [whereableLine row (baseType imports enums row) (resolvedType imports config enums row)],
        insertables = insertables shapes @
          map (\<lambda>row. insertableLine config rel row (baseType imports enums row) (resolvedType imports config enums row))
            (filter (isInsertable config rel) [row]),
        updatables = updatables shapes @
          map (\<lambda>row. updatableLine row (baseType imports enums row) (resolvedType imports config enums row))
            (filter (isUpdatable config rel) [row]) \<rparr>,
      fold (\<lambda>(k, v). assign k v) (registrations imports config enums [row]) registry)"
proof -
  obtain type1 registry' where c: "classify config (baseType imports enums row) row registry = (type1, registry')"
    by (cases "classify config (baseType imports enums row) row registry")
  have t: "type1 = resolvedType imports config enums row"
    using classify_fst [of config "imports" enums row registry] by (simp add: c)
  have r: "registry' = fold (\<lambda>(k, v). assign k v) (registrations imports config enums [row]) registry"
    using classify_snd [of config "imports" enums row registry] by (simp add: c)
  have "forEachRow imports config rel enums row (shapes, registry) =
     (\<lparr> selectables = selectables shapes @ [selectableLine row type1],
        whereables = whereables shapes @ [whereableLine row (baseType imports enums row) type1],
        insertables = insertables shapes @
          (if isInsertable config rel row
           then [insertableLine config rel row (baseType imports enums row) type1] else []),
        updatables = updatables shapes @
          (if isUpdatable config rel row then [updatableLine row (baseType imports enums row) type1] else []) \<rparr>,
      registry')"
    using c by (simp add: forEachRow_def baseType_def Let_def)
  then show ?thesis
    by (simp add: t r)
qed

lemma fold_forEachRow:
  "fold (forEachRow imports config rel enums) rows (shapes, registry) =
     (\<lparr> selectables = selectables shapes @
          map (\<lambda>row. selectableLine row (resolvedType imports config enums row)) rows,
        whereables = whereables shapes @
          map (\<lambda>row. whereableLine row (baseType imports enums row) (resolvedType imports config enums row)) rows,
        insertables = insertables shapes @
          map (\<lambda>row. insertableLine config rel row (baseType imports enums row) (resolvedType imports config enums row))
            (filter (isInsertable config rel) rows),
        updatables = updatables shapes @
          map (\<lambda>row. updatableLine row (baseType imports enums row) (resolvedType imports config enums row))
            (filter (isUpdatable config rel) rows) \<rparr>,
      fold (\<lambda>(k, v). assign k v) (registrations imports config enums rows) registry)"
proof (induction rows arbitrary: shapes registry)
  case Nil
  show ?case by (simp add: registrations_def)
next
  case (Cons row rows)
  show ?case
    unfolding fold_Cons comp_apply forEachRow_eq Cons.IH
    unfolding registrations_Cons [of "imports" config enums row rows]
    by simp
qed

text \<open>The shapes of a relation do not depend on the registry; the registry is written in the order of the columns.\<close>

lemma forEachRows_shapes:
  "fst (forEachRows imports config rel enums rows registry) =
     \<lparr> selectables = map (\<lambda>row. selectableLine row (resolvedType imports config enums row)) rows,
       whereables =
         map (\<lambda>row. whereableLine row (baseType imports enums row) (resolvedType imports config enums row)) rows,
       insertables =
         map (\<lambda>row. insertableLine config rel row (baseType imports enums row) (resolvedType imports config enums row))
           (filter (isInsertable config rel) rows),
       updatables =
         map (\<lambda>row. updatableLine row (baseType imports enums row) (resolvedType imports config enums row))
           (filter (isUpdatable config rel) rows) \<rparr>"
  by (simp add: forEachRows_def fold_forEachRow emptyShapes_def)

lemma forEachRows_registry:
  "snd (forEachRows imports config rel enums rows registry) =
     fold (\<lambda>(k, v). assign k v) (registrations imports config enums rows) registry"
  by (simp add: forEachRows_def fold_forEachRow)




lemma assign_Nil:
  "(assign k v registry = []) = (registry = [] \<and> k = ''__proto__'')"
proof (cases registry)
  case Nil
  show ?thesis by (simp add: assign_def Nil)
next
  case (Cons p ps)
  obtain a b where p: "p = (a, b)" by (cases p)
  show ?thesis by (simp add: assign_def Cons p)
qed







section \<open>Property access on plain objects\<close>

lemma lookup_objectPrototype:
  "name \<notin> set inheritedNames \<Longrightarrow> lookup objectPrototype name = None"
  by (simp add: objectPrototype_def inheritedNames_def)

lemma get_plainObject_own:
  "map_of props name = Some v \<Longrightarrow> get (plainObject props) name = v"
  by (simp add: get_def plainObject_def)

lemma get_plainObject_none:
  "map_of props name = None \<Longrightarrow> name \<notin> set inheritedNames \<Longrightarrow> get (plainObject props) name = Undefined"
  using lookup_objectPrototype [of name]
  by (simp add: get_def plainObject_def inheritedNames_def)



lemma optionsUnder_own:
  assumes "columnOptions config = plainObject props" and "map_of props key = Some (plainObject cols)"
  shows "optionsUnder config key col = get (plainObject cols) col"
proof -
  have g: "get (columnOptions config) key = plainObject cols"
    unfolding assms(1) using assms(2) by (rule get_plainObject_own)
  have t: "truthy (plainObject cols)"
    by (simp add: plainObject_def)
  show ?thesis
    unfolding optionsUnder_def g andAlso_def using t by simp
qed


section \<open>Promises\<close>

text \<open>
  Whatever the order in which the callbacks run: when what each callback resolves with
  does not depend on the world it starts in, \<^verbatim>\<open>Promise.all\<close> resolves with these
  values in the order of the array, if every callback resolves, and rejects otherwise.
\<close>

lemma resolved_simps [simp]:
  "resolved (Inl e) = None" "resolved (Inr x) = Some x"
  by (simp_all add: resolved_def)

lemma completionOrder_set: "set (completionOrder n order) = {0..<n}"
  by (auto simp: completionOrder_def)

lemma completionOrder_distinct: "distinct (completionOrder n order)"
  by (auto simp: completionOrder_def)

lemma runCallbacks_indices: "map fst (fst (runCallbacks f xs is w)) = is"
proof (induction "is" arbitrary: w)
  case Nil
  show ?case by simp
next
  case (Cons i "is")
  obtain r w1 where f: "f (xs ! i) w = (r, w1)" by (cases "f (xs ! i) w")
  obtain rs w2 where rc: "runCallbacks f xs is w1 = (rs, w2)" by (cases "runCallbacks f xs is w1")
  show ?case
    using Cons.IH [of w1] by (simp add: f rc)
qed

lemma runCallbacks_resolved:
  assumes "\<And>i w. i \<in> set is \<Longrightarrow> resolved (fst (f (xs ! i) w)) = G (xs ! i)"
  shows "\<forall>p \<in> set (fst (runCallbacks f xs is w)). resolved (snd p) = G (xs ! fst p)"
  using assms
proof (induction "is" arbitrary: w)
  case Nil
  show ?case by simp
next
  case (Cons i "is")
  obtain r w1 where f: "f (xs ! i) w = (r, w1)" by (cases "f (xs ! i) w")
  obtain rs w2 where rc: "runCallbacks f xs is w1 = (rs, w2)" by (cases "runCallbacks f xs is w1")
  have "resolved r = G (xs ! i)"
    using Cons.prems [of i w] by (simp add: f)
  moreover have "\<forall>p \<in> set rs. resolved (snd p) = G (xs ! fst p)"
    using Cons.IH [of w1] Cons.prems by (simp add: rc)
  ultimately show ?case
    by (simp add: f rc)
qed

lemma those_resolved:
  "those (map resolved rs) = (if rejections rs = [] then Some (resolutions rs) else None)"
proof (induction rs)
  case Nil
  show ?case by simp
next
  case (Cons r rs)
  then show ?case by (cases r) auto
qed

lemma rejections_empty_iff: "rejections rs = [] \<longleftrightarrow> (\<forall>r \<in> set rs. resolved r \<noteq> None)"
proof (induction rs)
  case Nil
  show ?case by simp
next
  case (Cons r rs)
  then show ?case by (cases r) auto
qed

lemma sorted_indices:
  assumes "distinct (map fst ps)" "set (map fst ps) = {0..<n}"
  shows "map fst (sort_key fst ps) = [0..<n]"
proof (rule sorted_distinct_set_unique)
  show "sorted (map fst (sort_key fst ps))" by simp
  show "distinct (map fst (sort_key fst ps))"
    using assms(1) by (simp add: distinct_map)
  show "sorted [0..<n]" by simp
  show "distinct [0..<n]" by simp
  show "set (map fst (sort_key fst ps)) = set [0..<n]"
    using assms(2) by simp
qed

lemma promiseAll_world:
  "snd (promiseAll order f xs w) = snd (runCallbacks f xs (completionOrder (length xs) order) w)"
  by (simp add: promiseAll_def split: prod.splits list.splits)

lemma promiseAll_resolved:
  assumes "\<And>x w. x \<in> set xs \<Longrightarrow> resolved (fst (f x w)) = G x"
  shows "resolved (fst (promiseAll order f xs w)) = those (map G xs)"
proof -
  define "is" where "is = completionOrder (length xs) order"
  obtain settled w' where rc: "runCallbacks f xs is w = (settled, w')"
    by (cases "runCallbacks f xs is w")
  have is_set: "set is = {0..<length xs}" and is_distinct: "distinct is"
    by (simp_all add: is_def completionOrder_set completionOrder_distinct)
  have ind: "map fst settled = is"
    using runCallbacks_indices [of f xs "is" w] by (simp add: rc)
  have each: "\<forall>p \<in> set settled. resolved (snd p) = G (xs ! fst p)"
    using runCallbacks_resolved [of "is" f xs G w] assms is_set by (simp add: rc)
  define sorted_settled where "sorted_settled = sort_key fst settled"
  have set_sorted: "set sorted_settled = set settled"
    by (simp add: sorted_settled_def)
  have fst_sorted: "map fst sorted_settled = [0..<length xs]"
    unfolding sorted_settled_def using sorted_indices [of settled "length xs"] ind is_set is_distinct by simp
  have "map (\<lambda>p. resolved (snd p)) sorted_settled = map (\<lambda>p. G (xs ! fst p)) sorted_settled"
    using each set_sorted by simp
  also have "\<dots> = map (\<lambda>i. G (xs ! i)) (map fst sorted_settled)"
    by (simp add: comp_def)
  also have "\<dots> = map G xs"
    unfolding fst_sorted by (rule nth_equalityI) simp_all
  finally have m: "map resolved (map snd sorted_settled) = map G xs"
    by (simp add: comp_def)
  have same: "rejections (map snd settled) = [] \<longleftrightarrow> rejections (map snd sorted_settled) = []"
    by (simp add: rejections_empty_iff set_sorted)
  have "resolved (fst (promiseAll order f xs w)) = those (map resolved (map snd sorted_settled))"
  proof (cases "rejections (map snd settled)")
    case Nil
    then have "fst (promiseAll order f xs w) = Inr (resolutions (map snd sorted_settled))"
      using rc by (simp add: promiseAll_def is_def [symmetric] sorted_settled_def)
    moreover have "rejections (map snd sorted_settled) = []"
      using Nil same by simp
    ultimately show ?thesis
      using those_resolved [of "map snd sorted_settled"] by simp
  next
    case (Cons e es)
    then have "fst (promiseAll order f xs w) = Inl e"
      using rc by (simp add: promiseAll_def is_def [symmetric] sorted_settled_def)
    moreover have "rejections (map snd sorted_settled) \<noteq> []"
      using Cons same by simp
    ultimately show ?thesis
      using those_resolved [of "map snd sorted_settled"] by simp
  qed
  then show ?thesis
    by (simp only: m)
qed

text \<open>
  What the callbacks do to the pool and to the registry adds up, whatever their order:
  queries are appended to the log of the pool, and the registry is empty at the end if
  and only if it was empty and no callback wrote it.
\<close>

lemma runCallbacks_pool:
  assumes "\<And>i w. i \<in> set is \<Longrightarrow> \<exists>qs. pool (snd (f (xs ! i) w)) = pool w @ map PoolQuery qs"
  shows "\<exists>qs. pool (snd (runCallbacks f xs is w)) = pool w @ map PoolQuery qs"
  using assms
proof (induction "is" arbitrary: w)
  case Nil
  have "pool w = pool w @ map PoolQuery []" by simp
  then show ?case by (simp del: append_Nil2)
next
  case (Cons i "is")
  obtain r w1 where f: "f (xs ! i) w = (r, w1)" by (cases "f (xs ! i) w")
  obtain rs w2 where rc: "runCallbacks f xs is w1 = (rs, w2)" by (cases "runCallbacks f xs is w1")
  obtain qs1 where q1: "pool w1 = pool w @ map PoolQuery qs1"
    using Cons.prems [of i w] by (auto simp: f)
  obtain qs2 where q2: "pool w2 = pool w1 @ map PoolQuery qs2"
    using Cons.IH [of w1] Cons.prems by (auto simp: rc)
  have s: "snd (runCallbacks f xs (i # is) w) = w2"
    by (simp add: f rc)
  have "pool w2 = pool w @ map PoolQuery (qs1 @ qs2)"
    by (simp add: q1 q2)
  then show ?case
    unfolding s by (rule exI)
qed

lemma promiseAll_pool:
  assumes "\<And>x w. x \<in> set xs \<Longrightarrow> \<exists>qs. pool (snd (f x w)) = pool w @ map PoolQuery qs"
  shows "\<exists>qs. pool (snd (promiseAll order f xs w)) = pool w @ map PoolQuery qs"
  unfolding promiseAll_world
proof (rule runCallbacks_pool)
  fix i w'
  assume "i \<in> set (completionOrder (length xs) order)"
  then have "xs ! i \<in> set xs"
    by (simp add: completionOrder_set)
  then show "\<exists>qs. pool (snd (f (xs ! i) w')) = pool w' @ map PoolQuery qs"
    by (rule assms)
qed

lemma runCallbacks_registry:
  assumes "\<And>i w. i \<in> set is \<Longrightarrow> (customTypes (snd (f (xs ! i) w)) = []) = (customTypes w = [] \<and> Q (xs ! i))"
  shows "(customTypes (snd (runCallbacks f xs is w)) = []) = (customTypes w = [] \<and> (\<forall>i \<in> set is. Q (xs ! i)))"
  using assms
proof (induction "is" arbitrary: w)
  case Nil
  show ?case by simp
next
  case (Cons i "is")
  obtain r w1 where f: "f (xs ! i) w = (r, w1)" by (cases "f (xs ! i) w")
  obtain rs w2 where rc: "runCallbacks f xs is w1 = (rs, w2)" by (cases "runCallbacks f xs is w1")
  have a: "(customTypes w1 = []) = (customTypes w = [] \<and> Q (xs ! i))"
    using Cons.prems [of i w] by (simp add: f)
  have b: "(customTypes w2 = []) = (customTypes w1 = [] \<and> (\<forall>i \<in> set is. Q (xs ! i)))"
    using Cons.IH [of w1] Cons.prems by (simp add: rc)
  show ?case
    using a b by (auto simp: f rc)
qed

lemma promiseAll_registry:
  assumes "\<And>x w. x \<in> set xs \<Longrightarrow> (customTypes (snd (f x w)) = []) = (customTypes w = [] \<and> Q x)"
  shows "(customTypes (snd (promiseAll order f xs w)) = []) = (customTypes w = [] \<and> (\<forall>x \<in> set xs. Q x))"
proof -
  have "(customTypes (snd (promiseAll order f xs w)) = []) =
      (customTypes w = [] \<and> (\<forall>i \<in> set (completionOrder (length xs) order). Q (xs ! i)))"
    unfolding promiseAll_world
  proof (rule runCallbacks_registry)
    fix i w'
    assume "i \<in> set (completionOrder (length xs) order)"
    then have "xs ! i \<in> set xs"
      by (simp add: completionOrder_set)
    then show "(customTypes (snd (f (xs ! i) w')) = []) = (customTypes w' = [] \<and> Q (xs ! i))"
      by (rule assms)
  qed
  moreover have "(\<forall>i \<in> set (completionOrder (length xs) order). Q (xs ! i)) = (\<forall>x \<in> set xs. Q x)"
    by (auto simp: completionOrder_set all_set_conv_all_nth)
  ultimately show ?thesis by simp
qed





lemma await_resolved:
  "resolved (fst (await m k w)) =
     (case resolved (fst (m w)) of None \<Rightarrow> None | Some x \<Rightarrow> resolved (fst (k x (snd (m w)))))"
  by (simp add: await_def split: prod.splits sum.splits)

lemma await_world:
  "snd (await m k w) =
     (case resolved (fst (m w)) of None \<Rightarrow> snd (m w) | Some x \<Rightarrow> snd (k x (snd (m w))))"
  by (simp add: await_def split: prod.splits sum.splits)

section \<open>The text of one relation\<close>


lemma definitionForTableInSchema_outcome:
  "fst (definitionForTableInSchema imports catalog rel schemaName enums config w) =
     (case columnRows catalog (rel_type rel) (rel_name rel) schemaName of
        Inl e \<Rightarrow> Inl e
      | Inr rows \<Rightarrow>
          (case uniqueIndexRows catalog (rel_name rel) of
             Inl e \<Rightarrow> Inl e
           | Inr uniqueIndexes \<Rightarrow>
               Inr (tableDef rel (fst (forEachRows imports config rel enums rows (customTypes w))) uniqueIndexes)))"
  by (simp add: definitionForTableInSchema_def columnsForRelation_def await_def poolQuery_def resolve_def
        split: sum.splits prod.splits)

lemma fold_assign_empty:
  "(fold (\<lambda>(k, v). assign k v) regs registry = []) = (registry = [] \<and> written regs = [])"
proof (induction regs arbitrary: registry)
  case Nil
  show ?case by (simp add: written_def)
next
  case (Cons p regs)
  obtain k v where p: "p = (k, v)" by (cases p)
  show ?case
    by (auto simp: p Cons.IH assign_Nil written_def)
qed

lemma table_resolved:
  "resolved (fst (definitionForTableInSchema imports catalog rel schemaName enums config w)) =
     relationText imports catalog config schemaName enums rel"
  by (simp add: definitionForTableInSchema_outcome relationText_def forEachRows_shapes
        split: sum.splits)

lemma table_world:
  "snd (definitionForTableInSchema imports catalog rel schemaName enums config w) =
     (case columnRows catalog (rel_type rel) (rel_name rel) schemaName of
        Inl e \<Rightarrow> w\<lparr> pool := pool w @ [PoolQuery (ColumnsQuery (rel_type rel) (rel_name rel) schemaName)] \<rparr>
      | Inr rows \<Rightarrow>
          w\<lparr> customTypes := fold (\<lambda>(k, v). assign k v) (registrations imports config enums rows) (customTypes w),
             pool := pool w @ [PoolQuery (ColumnsQuery (rel_type rel) (rel_name rel) schemaName),
                               PoolQuery (UniqueIndexesQuery (rel_name rel))] \<rparr>)"
proof (cases "columnRows catalog (rel_type rel) (rel_name rel) schemaName")
  case (Inl e)
  then show ?thesis
    by (simp add: definitionForTableInSchema_def columnsForRelation_def await_def poolQuery_def)
next
  case (Inr rows)
  obtain shapes registry' where fe: "forEachRows imports config rel enums rows (customTypes w) = (shapes, registry')"
    by (cases "forEachRows imports config rel enums rows (customTypes w)")
  have "registry' = fold (\<lambda>(k, v). assign k v) (registrations imports config enums rows) (customTypes w)"
    using forEachRows_registry [of "imports" config rel enums rows "customTypes w"] by (simp add: fe)
  then show ?thesis
    using Inr fe
    by (simp add: definitionForTableInSchema_def columnsForRelation_def await_def poolQuery_def resolve_def
          split: sum.splits)
qed

lemma table_pool:
  "\<exists>qs. pool (snd (definitionForTableInSchema imports catalog rel schemaName enums config w)) =
     pool w @ map PoolQuery qs"
proof (cases "columnRows catalog (rel_type rel) (rel_name rel) schemaName")
  case (Inl e)
  have "pool (snd (definitionForTableInSchema imports catalog rel schemaName enums config w)) =
      pool w @ map PoolQuery [ColumnsQuery (rel_type rel) (rel_name rel) schemaName]"
    by (simp add: table_world Inl)
  then show ?thesis by (rule exI)
next
  case (Inr rows)
  have "pool (snd (definitionForTableInSchema imports catalog rel schemaName enums config w)) =
      pool w @ map PoolQuery [ColumnsQuery (rel_type rel) (rel_name rel) schemaName,
        UniqueIndexesQuery (rel_name rel)]"
    by (simp add: table_world Inr)
  then show ?thesis by (rule exI)
qed

lemma table_registry:
  "(customTypes (snd (definitionForTableInSchema imports catalog rel schemaName enums config w)) = []) =
     (customTypes w = [] \<and> \<not> relationRegisters imports catalog config schemaName enums rel)"
  by (simp add: table_world relationRegisters_def fold_assign_empty split: sum.splits)



section \<open>The callback of one schema\<close>

lemma schemaTask_tables:
  "fst (schemaTask imports catalog schedule config (schema, rules) w) = Inr (schemaDef, tables) \<Longrightarrow>
   fst (tablesForRules catalog schema rules w) = Inr tables"
  by (auto simp: schemaTask_def await_def resolve_def split: sum.splits prod.splits)

lemma tablesForRules_eq:
  "tablesForRules catalog schema rules w =
     (case exclude_rule rules of
        Star \<Rightarrow> (Inr [], w)
      | Names excluded \<Rightarrow>
          (case relationRows catalog schema of
             Inl e \<Rightarrow> Inl e
           | Inr rels \<Rightarrow> Inr (filter (\<lambda>rel. rel_name rel \<notin> set excluded) (filter (included rules) rels)),
           w\<lparr> pool := pool w @ [PoolQuery (RelationsQuery schema)] \<rparr>))"
  by (simp add: tablesForRules_def relationsInSchema_def await_def resolve_def poolQuery_def
        split: Rule.splits sum.splits)

lemma tablesForRules_resolved:
  "resolved (fst (tablesForRules catalog schema rules w)) = selectedTables catalog schema rules"
  by (simp add: tablesForRules_eq selectedTables_def split: Rule.splits sum.splits)

lemma tablesForRules_registry:
  "customTypes (snd (tablesForRules catalog schema rules w)) = customTypes w"
  by (simp add: tablesForRules_eq split: Rule.splits)

lemma tablesForRules_pool:
  "\<exists>qs. pool (snd (tablesForRules catalog schema rules w)) = pool w @ map PoolQuery qs"
proof (cases "exclude_rule rules")
  case Star
  have "pool (snd (tablesForRules catalog schema rules w)) = pool w @ map PoolQuery []"
    by (simp add: tablesForRules_eq Star)
  then show ?thesis by (rule exI)
next
  case (Names excluded)
  have "pool (snd (tablesForRules catalog schema rules w)) = pool w @ map PoolQuery [RelationsQuery schema]"
    by (simp add: tablesForRules_eq Names)
  then show ?thesis by (rule exI)
qed

lemma enumDataForSchema_eq:
  "enumDataForSchema catalog schema w = (enumData catalog schema, w\<lparr> pool := pool w @ [PoolQuery (EnumsQuery schema)] \<rparr>)"
  by (simp add: enumDataForSchema_def poolQuery_def)

lemma schemaTask_resolved:
  "resolved (fst (schemaTask imports catalog schedule config entry w)) =
     schemaOutcome imports catalog config entry"
proof -
  obtain schema rules where e: "entry = (schema, rules)" by (cases entry)
  have p: "resolved (fst (promiseAll (tableOrder schedule schema)
        (\<lambda>table. definitionForTableInSchema imports catalog table schema enums config) tables w')) =
      those (map (relationText imports catalog config schema enums) tables)" for enums tables w'
    by (rule promiseAll_resolved) (rule table_resolved)
  show ?thesis
    unfolding e schemaTask_def schemaOutcome_def prod.case await_resolved tablesForRules_resolved p
    by (simp add: enumDataForSchema_eq resolve_def split: option.splits sum.splits)
qed

lemma schemaTask_registry:
  "(customTypes (snd (schemaTask imports catalog schedule config entry w)) = []) =
     (customTypes w = [] \<and> \<not> schemaRegisters imports catalog config entry)"
proof -
  obtain schema rules where e: "entry = (schema, rules)" by (cases entry)
  have p: "(customTypes (snd (promiseAll (tableOrder schedule schema)
        (\<lambda>table. definitionForTableInSchema imports catalog table schema enums config) tables w')) = []) =
      (customTypes w' = [] \<and> (\<forall>rel \<in> set tables. \<not> relationRegisters imports catalog config schema enums rel))"
    for enums tables w'
    by (rule promiseAll_registry) (rule table_registry)
  show ?thesis
    unfolding e schemaTask_def schemaRegisters_def prod.case await_world await_resolved
      tablesForRules_resolved
    by (simp add: p enumDataForSchema_eq resolve_def tablesForRules_registry split: option.splits sum.splits)
qed

lemma schemaTask_pool:
  "\<exists>qs. pool (snd (schemaTask imports catalog schedule config entry w)) = pool w @ map PoolQuery qs"
proof -
  obtain schema rules where e: "entry = (schema, rules)" by (cases entry)
  obtain r1 w1 where t: "tablesForRules catalog schema rules w = (r1, w1)"
    by (cases "tablesForRules catalog schema rules w")
  obtain qs1 where q1: "pool w1 = pool w @ map PoolQuery qs1"
    using tablesForRules_pool [of catalog schema rules w] by (auto simp: t)
  show ?thesis
  proof (cases r1)
    case (Inl err)
    then have "snd (schemaTask imports catalog schedule config entry w) = w1"
      by (simp add: e schemaTask_def await_def t)
    then have "pool (snd (schemaTask imports catalog schedule config entry w)) = pool w @ map PoolQuery qs1"
      by (simp only: q1)
    then show ?thesis by (rule exI)
  next
    case tables: (Inr tables)
    define w2 where "w2 = w1\<lparr> pool := pool w1 @ [PoolQuery (EnumsQuery schema)] \<rparr>"
    have q2: "pool w2 = pool w @ map PoolQuery (qs1 @ [EnumsQuery schema])"
      by (simp add: w2_def q1)
    show ?thesis
    proof (cases "enumData catalog schema")
      case (Inl err)
      then have "snd (schemaTask imports catalog schedule config entry w) = w2"
        by (simp add: e schemaTask_def await_def t tables enumDataForSchema_eq w2_def)
      then have "pool (snd (schemaTask imports catalog schedule config entry w)) =
          pool w @ map PoolQuery (qs1 @ [EnumsQuery schema])"
        by (simp only: q2)
      then show ?thesis by (rule exI)
    next
      case enums: (Inr enums)
      define w3 where "w3 = snd (promiseAll (tableOrder schedule schema)
        (\<lambda>table. definitionForTableInSchema imports catalog table schema enums config) tables w2)"
      have "\<exists>qs. pool w3 = pool w2 @ map PoolQuery qs"
        unfolding w3_def by (rule promiseAll_pool) (rule table_pool)
      then obtain qs3 where "pool w3 = pool w2 @ map PoolQuery qs3" ..
      then have q3: "pool w3 = pool w @ map PoolQuery (qs1 @ [EnumsQuery schema] @ qs3)"
        by (simp add: q2)
      have "snd (schemaTask imports catalog schedule config entry w) = w3"
        by (simp add: e schemaTask_def await_def t tables enums enumDataForSchema_eq w2_def w3_def resolve_def
              split: prod.splits sum.splits)
      then have "pool (snd (schemaTask imports catalog schedule config entry w)) =
          pool w @ map PoolQuery (qs1 @ [EnumsQuery schema] @ qs3)"
        by (simp only: q3)
      then show ?thesis by (rule exI)
    qed
  qed
qed




section \<open>The whole run\<close>

lemma schemas_resolved:
  "resolved (fst (promiseAll (schemaOrder schedule) (schemaTask imports catalog schedule config) (schemas config) w)) =
     those (map (schemaOutcome imports catalog config) (schemas config))"
  by (rule promiseAll_resolved) (rule schemaTask_resolved)

lemma schemas_registry:
  "(customTypes (snd (promiseAll (schemaOrder schedule) (schemaTask imports catalog schedule config)
       (schemas config) w)) = []) =
     (customTypes w = [] \<and> (\<forall>entry \<in> set (schemas config). \<not> schemaRegisters imports catalog config entry))"
  by (rule promiseAll_registry) (rule schemaTask_registry)

lemma schemas_pool:
  "\<exists>qs. pool (snd (promiseAll (schemaOrder schedule) (schemaTask imports catalog schedule config)
       (schemas config) w)) = pool w @ map PoolQuery qs"
  by (rule promiseAll_pool) (rule schemaTask_pool)

lemma tsForConfig_text:
  "map_option fst (resolved (fst (tsForConfig imports catalog schedule config))) =
     outputText imports catalog config"
proof -
  define w0 where "w0 = \<lparr> customTypes = [], pool = [PoolNew] \<rparr>"
  define w1 where "w1 = snd (promiseAll (schemaOrder schedule) (schemaTask imports catalog schedule config)
       (schemas config) w0)"
  have h: "(0 < length (map fst (customTypes w1))) =
      (\<exists>entry \<in> set (schemas config). schemaRegisters imports catalog config entry)"
    using schemas_registry [of schedule "imports" catalog config w0]
    by (auto simp: w1_def w0_def)
  show ?thesis
    unfolding tsForConfig_def outputText_def await_resolved schemas_resolved w0_def [symmetric]
      w1_def [symmetric]
    using h by (simp add: Let_def split: option.splits)
qed

lemma tsForConfig_pool:
  "\<exists>qs. pool (snd (tsForConfig imports catalog schedule config)) =
     PoolNew # map PoolQuery qs @
     (case fst (tsForConfig imports catalog schedule config) of Inl e \<Rightarrow> [] | Inr out \<Rightarrow> [PoolEnd])"
proof -
  define w0 where "w0 = \<lparr> customTypes = [], pool = [PoolNew] \<rparr>"
  obtain r w1 where p: "promiseAll (schemaOrder schedule) (schemaTask imports catalog schedule config)
       (schemas config) w0 = (r, w1)"
    by (cases "promiseAll (schemaOrder schedule) (schemaTask imports catalog schedule config) (schemas config) w0")
  have "\<exists>qs. pool (snd (promiseAll (schemaOrder schedule) (schemaTask imports catalog schedule config)
       (schemas config) w0)) = pool w0 @ map PoolQuery qs"
    by (rule schemas_pool)
  then obtain qs where "pool w1 = pool w0 @ map PoolQuery qs"
    by (auto simp: p)
  then have q: "pool w1 = PoolNew # map PoolQuery qs"
    by (simp add: w0_def)
  show ?thesis
  proof (cases r)
    case (Inl e)
    then have "tsForConfig imports catalog schedule config = (Inl e, w1)"
      by (simp add: tsForConfig_def await_def w0_def [symmetric] p)
    then have "pool (snd (tsForConfig imports catalog schedule config)) =
        PoolNew # map PoolQuery qs @
        (case fst (tsForConfig imports catalog schedule config) of Inl e \<Rightarrow> [] | Inr out \<Rightarrow> [PoolEnd])"
      by (simp add: q)
    then show ?thesis by (rule exI)
  next
    case (Inr schemaData)
    then have "\<exists>out. tsForConfig imports catalog schedule config = (Inr out, w1\<lparr> pool := pool w1 @ [PoolEnd] \<rparr>)"
      by (simp add: tsForConfig_def await_def w0_def [symmetric] p Let_def)
    then have "pool (snd (tsForConfig imports catalog schedule config)) =
        PoolNew # map PoolQuery qs @
        (case fst (tsForConfig imports catalog schedule config) of Inl e \<Rightarrow> [] | Inr out \<Rightarrow> [PoolEnd])"
      by (auto simp: q)
    then show ?thesis by (rule exI)
  qed
qed




section \<open>The order of the blocks, and evaluation\<close>


text \<open>The definitions that a run on a concrete catalog unfolds.\<close>

lemmas run_eval =
  tsForConfig_def schemaTask_def tablesForRules_def relationsInSchema_def enumDataForSchema_def
  definitionForTableInSchema_def columnsForRelation_def promiseAll_def completionOrder_def
  await_def resolve_def poolQuery_def forEachRows_def forEachRow_def classify_def assign_def isCustom_def
  customTypeOf_def emptyShapes_def included_def Let_def


section \<open>Properties\<close>










text \<open>
  Claim C4, as the specification states it, fails on the path of a failure: when the
  query for the relations of the schema is rejected, the run is rejected and the log of
  the pool ends with that query; \<^verbatim>\<open>pool.end()\<close> is not called.
\<close>

theorem pool_not_ended_counterexample:
  "tsForConfig exampleImports failingCatalog programOrder exampleConfig =
     (Inl ''connection refused'',
      \<lparr> customTypes = [], pool = [PoolNew, PoolQuery (RelationsQuery ''public'')] \<rparr>) \<and>
   PoolEnd \<notin> set (pool (snd (tsForConfig exampleImports failingCatalog programOrder exampleConfig)))"
  by (simp add: run_eval programOrder_def exampleConfig_def failingCatalog_def exampleCatalog_def)

text \<open>
  Claim C4, amended. In every run of \<^verbatim>\<open>tsForConfig\<close>, whatever the order in which the
  callbacks run, the pool is created once, before every query, and nothing but queries
  follows until the end of the schema work. When the run resolves, \<^verbatim>\<open>pool.end()\<close>
  is called once, after every query. When the run is rejected, \<^verbatim>\<open>pool.end()\<close> is not
  called.
\<close>

theorem pool_scope:
  "\<exists>qs. pool (snd (tsForConfig imports catalog schedule config)) =
     PoolNew # map PoolQuery qs @
     (case fst (tsForConfig imports catalog schedule config) of Inl e \<Rightarrow> [] | Inr out \<Rightarrow> [PoolEnd])"
  by (rule tsForConfig_pool)




text \<open>
  Claim C6. Exclusion comes before inclusion. When the exclude rule of a schema is
  \<^verbatim>\<open>'*'\<close>, the list of its relations is empty whatever the include rule is (and the
  catalog is not asked). When the exclude rule is a list of names, no relation with one
  of these names is among the relations of the schema, whether the include rule names it
  or not. The relations of the callback of a schema are these.
\<close>

theorem exclusion_precedence:
  "(exclude_rule rules = Star \<longrightarrow> tablesForRules catalog schema rules w = (Inr [], w)) \<and>
   (exclude_rule rules = Names excluded \<and> name \<in> set excluded \<and>
    fst (tablesForRules catalog schema rules w) = Inr tables \<longrightarrow> name \<notin> rel_name ` set tables) \<and>
   (fst (schemaTask imports catalog schedule config (schema, rules) w) = Inr (schemaDef, tables) \<longrightarrow>
    fst (tablesForRules catalog schema rules w) = Inr tables)"
proof (intro conjI impI)
  assume "exclude_rule rules = Star"
  then show "tablesForRules catalog schema rules w = (Inr [], w)"
    by (simp add: tablesForRules_def resolve_def)
next
  assume a: "exclude_rule rules = Names excluded \<and> name \<in> set excluded \<and>
    fst (tablesForRules catalog schema rules w) = Inr tables"
  then have "\<exists>rels. tables = filter (\<lambda>rel. rel_name rel \<notin> set excluded) (filter (included rules) rels)"
    by (auto simp: tablesForRules_def relationsInSchema_def await_def resolve_def poolQuery_def
          split: sum.splits)
  with a show "name \<notin> rel_name ` set tables"
    by auto
next
  assume "fst (schemaTask imports catalog schedule config (schema, rules) w) = Inr (schemaDef, tables)"
  then show "fst (tablesForRules catalog schema rules w) = Inr tables"
    by (rule schemaTask_tables)
qed

text \<open>\<^verbatim>\<open>logs\<close> is both included and excluded.\<close>

theorem exclusion_precedence_witness:
  "fst (tablesForRules exampleCatalog ''public''
     \<lparr> include_rule = Names [''users'', ''logs''], exclude_rule = Names [''logs''] \<rparr>
     \<lparr> customTypes = [], pool = [PoolNew] \<rparr>) = Inr [\<lparr> rel_name = ''users'', rel_type = Table \<rparr>] \<and>
   ''logs'' \<notin> rel_name ` set [\<lparr> rel_name = ''users'', rel_type = Table \<rparr>] \<and>
   tablesForRules exampleCatalog ''public'' \<lparr> include_rule = Star, exclude_rule = Star \<rparr>
     \<lparr> customTypes = [], pool = [PoolNew] \<rparr> = (Inr [], \<lparr> customTypes = [], pool = [PoolNew] \<rparr>)"
proof -
  have t: "fst (tablesForRules exampleCatalog ''public''
     \<lparr> include_rule = Names [''users'', ''logs''], exclude_rule = Names [''logs''] \<rparr>
     \<lparr> customTypes = [], pool = [PoolNew] \<rparr>) = Inr [\<lparr> rel_name = ''users'', rel_type = Table \<rparr>]"
    by (simp add: tablesForRules_def relationsInSchema_def await_def resolve_def poolQuery_def
          exampleCatalog_def included_def)
  have "''logs'' \<notin> rel_name ` set [\<lparr> rel_name = ''users'', rel_type = Table \<rparr>]"
    using exclusion_precedence [of "\<lparr> include_rule = Names [''users'', ''logs''], exclude_rule = Names [''logs''] \<rparr>"
        exampleCatalog "''public''" "\<lparr> customTypes = [], pool = [PoolNew] \<rparr>" "[''logs'']" "''logs''"
        "[\<lparr> rel_name = ''users'', rel_type = Table \<rparr>]"] t
    by simp
  moreover have "tablesForRules exampleCatalog ''public'' \<lparr> include_rule = Star, exclude_rule = Star \<rparr>
     \<lparr> customTypes = [], pool = [PoolNew] \<rparr> = (Inr [], \<lparr> customTypes = [], pool = [PoolNew] \<rparr>)"
    using exclusion_precedence [of "\<lparr> include_rule = Star, exclude_rule = Star \<rparr>"
        exampleCatalog "''public''" "\<lparr> customTypes = [], pool = [PoolNew] \<rparr>"]
    by simp
  ultimately show ?thesis
    using t by simp
qed

text \<open>
  Claim C7. For an empty list of relations, \<^verbatim>\<open>crossTableTypesForTables\<close> gives the text
  below: each of the types \<^verbatim>\<open>Table\<close>, \<^verbatim>\<open>Selectable\<close>, \<^verbatim>\<open>Whereable\<close>,
  \<^verbatim>\<open>Insertable\<close>, \<^verbatim>\<open>Updatable\<close>, \<^verbatim>\<open>UniqueIndex\<close> and \<^verbatim>\<open>Column\<close>, and each
  of the lookup types \<^verbatim>\<open>...ForTable\<close>, is \<^verbatim>\<open>any\<close>; none is \<^verbatim>\<open>never\<close> (the
  word stands in the comment only).
\<close>

theorem crossTableTypes_empty:
  "crossTableTypesForTables [] =
     ''\<newline>// `never` rather than `any` types would be more accurate in this no-tables case, but they stop `shortcuts.ts` compiling\<newline>'' @
     ''\<newline>export type Table = any;'' @
     ''\<newline>export type Selectable = any;'' @
     ''\<newline>export type Whereable = any;'' @
     ''\<newline>export type Insertable = any;'' @
     ''\<newline>export type Updatable = any;'' @
     ''\<newline>export type UniqueIndex = any;'' @
     ''\<newline>export type Column = any;'' @
     ''\<newline>export type AllTables = [];'' @
     ''\<newline>export type AllMaterializedViews = [];\<newline>\<newline>'' @
     ''\<newline>export type SelectableForTable<T extends Table> = any;\<newline>'' @
     ''\<newline>export type WhereableForTable<T extends Table> = any;\<newline>'' @
     ''\<newline>export type InsertableForTable<T extends Table> = any;\<newline>'' @
     ''\<newline>export type UpdatableForTable<T extends Table> = any;\<newline>'' @
     ''\<newline>export type UniqueIndexForTable<T extends Table> = any;\<newline>'' @
     ''\<newline>export type ColumnForTable<T extends Table> = any;\<newline>'' @
     ''\<newline>export type SQLForTable<T extends Table> = any;\<newline>''"
  by (simp add: crossTableTypesForTables_def mappedUnion_def forTableType_def)



text \<open>
  Claim C9. Two runs over the same catalog answers, the same configuration and the same
  imported functions either are both rejected or resolve with the same text
  \<^verbatim>\<open>ts\<close>, whatever the orders in which the callbacks of the two runs continue. (The
  text is \<^term>\<open>outputText imports catalog config\<close>.)
\<close>

theorem deterministic_output:
  "map_option fst (resolved (fst (tsForConfig imports catalog schedule1 config))) =
   map_option fst (resolved (fst (tsForConfig imports catalog schedule2 config)))"
  by (simp only: tsForConfig_text)

text \<open>
  Claim C10. In the override of a column, what the lookup under the name of the relation
  finds comes before the entry under the wildcard \<^verbatim>\<open>*\<close>: when that lookup gives a
  value other than \<^verbatim>\<open>undefined\<close> and \<^verbatim>\<open>null\<close>, this value is the override, and
  \<^verbatim>\<open>insert\<close> and \<^verbatim>\<open>update\<close> are read from it alone, also where it has none of them
  and the entry under the wildcard has; the lookup under the wildcard gives the override
  only when the lookup under the name of the relation gives \<^verbatim>\<open>undefined\<close> or
  \<^verbatim>\<open>null\<close>. An entry that the configuration has for the relation and the column is
  such a value. The lookup is property access, so a value that the objects of the
  configuration inherit for the name of the relation and, from there, for the name of
  the column is such a value too, and the wildcard is not consulted then either.
\<close>

theorem override_precedence:
  "columnOptionsFor config relName col =
     (if nullish (optionsUnder config relName col) then optionsUnder config ''*'' col
      else optionsUnder config relName col) \<and>
   optionsUnder config key col =
     (if truthy (get (columnOptions config) key) then get (get (columnOptions config) key) col
      else get (columnOptions config) key) \<and>
   (columnOptionsFor config relName col \<noteq> optionsUnder config relName col \<longrightarrow>
      nullish (optionsUnder config relName col)) \<and>
   (\<not> nullish (optionsUnder config (rel_name rel) (column row)) \<longrightarrow>
      isInsertable config rel row =
        (\<not> isGenerated row \<and> get (optionsUnder config (rel_name rel) (column row)) ''insert'' \<noteq> Str ''excluded'') \<and>
      isUpdatable config rel row =
        (\<not> isGenerated row \<and> get (optionsUnder config (rel_name rel) (column row)) ''update'' \<noteq> Str ''excluded'') \<and>
      insertablyOptional config rel row =
        (if isNullable row \<or> hasDefault row \<or>
            get (optionsUnder config (rel_name rel) (column row)) ''insert'' = Str ''optional''
         then ''?'' else [])) \<and>
   (columnOptions config = Obj props proto \<and> map_of props relName = Some (Obj cols proto') \<and>
    map_of cols col = Some entry \<and> \<not> nullish entry \<longrightarrow>
      columnOptionsFor config relName col = entry) \<and>
   (columnOptions config = Obj props proto \<and> map_of props relName = None \<and>
    lookup proto relName = Some inherited \<and> truthy inherited \<and> \<not> nullish (get inherited col) \<longrightarrow>
      columnOptionsFor config relName col = get inherited col)"
proof (intro conjI impI)
  show c: "columnOptionsFor config relName col =
     (if nullish (optionsUnder config relName col) then optionsUnder config ''*'' col
      else optionsUnder config relName col)" for relName col
    by (simp add: columnOptionsFor_def coalesce_def)
  show "optionsUnder config key col =
     (if truthy (get (columnOptions config) key) then get (get (columnOptions config) key) col
      else get (columnOptions config) key)"
    by (simp add: optionsUnder_def andAlso_def)
  show "nullish (optionsUnder config relName col)"
    if "columnOptionsFor config relName col \<noteq> optionsUnder config relName col"
    using that by (simp add: c split: if_splits)
  {
    assume n: "\<not> nullish (optionsUnder config (rel_name rel) (column row))"
    have o: "optionalGet (columnOptionsFor config (rel_name rel) (column row)) name =
        get (optionsUnder config (rel_name rel) (column row)) name" for name
      using n by (simp add: c optionalGet_def)
    show "isInsertable config rel row =
        (\<not> isGenerated row \<and> get (optionsUnder config (rel_name rel) (column row)) ''insert'' \<noteq> Str ''excluded'')"
      by (simp add: isInsertable_def o)
    show "isUpdatable config rel row =
        (\<not> isGenerated row \<and> get (optionsUnder config (rel_name rel) (column row)) ''update'' \<noteq> Str ''excluded'')"
      by (simp add: isUpdatable_def o)
    show "insertablyOptional config rel row =
        (if isNullable row \<or> hasDefault row \<or>
            get (optionsUnder config (rel_name rel) (column row)) ''insert'' = Str ''optional''
         then ''?'' else [])"
      by (simp add: insertablyOptional_def o)
  }
  {
    assume a: "columnOptions config = Obj props proto \<and> map_of props relName = Some (Obj cols proto') \<and>
      map_of cols col = Some entry \<and> \<not> nullish entry"
    have "optionsUnder config relName col = entry"
      using a by (simp add: optionsUnder_def andAlso_def get_def)
    then show "columnOptionsFor config relName col = entry"
      using a by (simp add: c)
  }
  {
    assume a: "columnOptions config = Obj props proto \<and> map_of props relName = None \<and>
      lookup proto relName = Some inherited \<and> truthy inherited \<and> \<not> nullish (get inherited col)"
    have "optionsUnder config relName col = get inherited col"
      using a by (simp add: optionsUnder_def andAlso_def get_def)
    then show "columnOptionsFor config relName col = get inherited col"
      using a by (simp add: c)
  }
qed

text \<open>
  The relation \<^verbatim>\<open>users\<close> has an entry for \<^verbatim>\<open>created\<close> with no \<^verbatim>\<open>insert\<close>, and the
  wildcard excludes \<^verbatim>\<open>created\<close> from insert: the column is insertable, and not
  updatable. The relation has no entry for \<^verbatim>\<open>id\<close>: the entry of the wildcard is the
  override. For a relation named \<^verbatim>\<open>constructor\<close> the lookup finds the function
  \<^verbatim>\<open>Object\<close>, which every plain object inherits, and for the column \<^verbatim>\<open>name\<close> its
  property \<^verbatim>\<open>name\<close>, the string \<^verbatim>\<open>'Object'\<close>: the entry of the wildcard for
  \<^verbatim>\<open>name\<close>, which excludes the column, is not consulted, and the column is insertable.
\<close>

theorem override_precedence_witness:
  "columnOptionsFor overrideConfig ''users'' ''created'' = plainObject [(''update'', Str ''excluded'')] \<and>
   optionsUnder overrideConfig ''*'' ''created'' = plainObject [(''insert'', Str ''excluded'')] \<and>
   isInsertable overrideConfig \<lparr> rel_name = ''users'', rel_type = Table \<rparr>
     \<lparr> column = ''created'', isGenerated = False, isNullable = False, hasDefault = False,
       udtName = ''text'', domainName = None \<rparr> \<and>
   \<not> isUpdatable overrideConfig \<lparr> rel_name = ''users'', rel_type = Table \<rparr>
     \<lparr> column = ''created'', isGenerated = False, isNullable = False, hasDefault = False,
       udtName = ''text'', domainName = None \<rparr> \<and>
   optionsUnder overrideConfig ''users'' ''id'' = Undefined \<and>
   columnOptionsFor overrideConfig ''users'' ''id'' = plainObject [(''insert'', Str ''optional'')] \<and>
   columnOptionsFor overrideConfig ''constructor'' ''name'' = Str ''Object'' \<and>
   optionsUnder overrideConfig ''*'' ''name'' =
     plainObject [(''insert'', Str ''excluded''), (''update'', Str ''excluded'')] \<and>
   isInsertable overrideConfig \<lparr> rel_name = ''constructor'', rel_type = Table \<rparr>
     \<lparr> column = ''name'', isGenerated = False, isNullable = False, hasDefault = False,
       udtName = ''text'', domainName = None \<rparr>"
proof -
  define usersOptions where "usersOptions = [(''created'', plainObject [(''update'', Str ''excluded'')])]"
  define starOptions where "starOptions =
    [(''created'', plainObject [(''insert'', Str ''excluded'')]),
     (''id'', plainObject [(''insert'', Str ''optional'')]),
     (''name'', plainObject [(''insert'', Str ''excluded''), (''update'', Str ''excluded'')])]"
  define props where "props = [(''users'', plainObject usersOptions), (''*'', plainObject starOptions)]"
  define createdRow where "createdRow =
    \<lparr> column = ''created'', isGenerated = False, isNullable = False, hasDefault = False,
      udtName = ''text'', domainName = None \<rparr>"
  define nameRow where "nameRow =
    \<lparr> column = ''name'', isGenerated = False, isNullable = False, hasDefault = False,
      udtName = ''text'', domainName = None \<rparr>"
  have co: "columnOptions overrideConfig = Obj props objectPrototype"
    by (simp add: overrideConfig_def props_def usersOptions_def starOptions_def plainObject_def)
  have co': "columnOptions overrideConfig = plainObject props"
    by (simp add: co plainObject_def)
  have star: "optionsUnder overrideConfig ''*'' col = get (plainObject starOptions) col" for col
    using co' by (rule optionsUnder_own) (simp add: props_def)
  have star_created: "optionsUnder overrideConfig ''*'' ''created'' = plainObject [(''insert'', Str ''excluded'')]"
    unfolding star by (rule get_plainObject_own) (simp add: starOptions_def)
  have star_id: "optionsUnder overrideConfig ''*'' ''id'' = plainObject [(''insert'', Str ''optional'')]"
    unfolding star by (rule get_plainObject_own) (simp add: starOptions_def)
  have star_name: "optionsUnder overrideConfig ''*'' ''name'' =
      plainObject [(''insert'', Str ''excluded''), (''update'', Str ''excluded'')]"
    unfolding star by (rule get_plainObject_own) (simp add: starOptions_def)
  have users: "optionsUnder overrideConfig ''users'' col = get (plainObject usersOptions) col" for col
    using co' by (rule optionsUnder_own) (simp add: props_def)
  have users_created: "optionsUnder overrideConfig ''users'' ''created'' = plainObject [(''update'', Str ''excluded'')]"
    unfolding users by (rule get_plainObject_own) (simp add: usersOptions_def)
  have users_id: "optionsUnder overrideConfig ''users'' ''id'' = Undefined"
    unfolding users by (rule get_plainObject_none) (simp_all add: usersOptions_def inheritedNames_def)
  have created_insert: "get (plainObject [(''update'', Str ''excluded'')]) ''insert'' = Undefined"
    by (rule get_plainObject_none) (simp_all add: inheritedNames_def)
  have created_update: "get (plainObject [(''update'', Str ''excluded'')]) ''update'' = Str ''excluded''"
    by (rule get_plainObject_own) simp
  note own = override_precedence [of overrideConfig "''users''" "''created''" "''users''"
      "\<lparr> rel_name = ''users'', rel_type = Table \<rparr>" createdRow props objectPrototype
      "[(''created'', plainObject [(''update'', Str ''excluded'')])]" objectPrototype
      "plainObject [(''update'', Str ''excluded'')]" objectConstructor]
  have a: "columnOptionsFor overrideConfig ''users'' ''created'' = plainObject [(''update'', Str ''excluded'')]"
  proof (rule own [THEN conjunct2, THEN conjunct2, THEN conjunct2, THEN conjunct2, THEN conjunct1, THEN mp])
    show "columnOptions overrideConfig = Obj props objectPrototype \<and>
      map_of props ''users'' = Some (Obj [(''created'', plainObject [(''update'', Str ''excluded'')])] objectPrototype) \<and>
      map_of [(''created'', plainObject [(''update'', Str ''excluded'')])] ''created'' =
        Some (plainObject [(''update'', Str ''excluded'')]) \<and>
      \<not> nullish (plainObject [(''update'', Str ''excluded'')])"
      by (simp add: co) (simp add: props_def usersOptions_def plainObject_def)
  qed
  have n: "\<not> nullish (optionsUnder overrideConfig (rel_name \<lparr> rel_name = ''users'', rel_type = Table \<rparr>)
      (column createdRow))"
    by (simp add: createdRow_def users_created plainObject_def)
  have b: "isInsertable overrideConfig \<lparr> rel_name = ''users'', rel_type = Table \<rparr> createdRow \<and>
      \<not> isUpdatable overrideConfig \<lparr> rel_name = ''users'', rel_type = Table \<rparr> createdRow"
    using own [THEN conjunct2, THEN conjunct2, THEN conjunct2, THEN conjunct1, THEN mp, OF n]
    by (simp add: createdRow_def users_created created_insert created_update)
  note fallback = override_precedence [of overrideConfig "''users''" "''id''" "''users''"
      "\<lparr> rel_name = ''users'', rel_type = Table \<rparr>" createdRow props objectPrototype
      "[]" objectPrototype Undefined objectConstructor]
  have c: "columnOptionsFor overrideConfig ''users'' ''id'' = plainObject [(''insert'', Str ''optional'')]"
    using fallback [THEN conjunct1] by (simp add: users_id star_id)
  have l: "lookup objectPrototype ''constructor'' = Some objectConstructor"
    by (simp add: objectPrototype_def)
  have g: "get objectConstructor ''name'' = Str ''Object''"
    by (simp add: get_def objectConstructor_def)
  have t: "truthy objectConstructor"
    by (simp add: objectConstructor_def)
  note inherited = override_precedence [of overrideConfig "''constructor''" "''name''" "''constructor''"
      "\<lparr> rel_name = ''constructor'', rel_type = Table \<rparr>" nameRow props objectPrototype
      "[]" objectPrototype Undefined objectConstructor]
  have d: "columnOptionsFor overrideConfig ''constructor'' ''name'' = Str ''Object''"
  proof -
    have "columnOptionsFor overrideConfig ''constructor'' ''name'' = get objectConstructor ''name''"
    proof (rule inherited [THEN conjunct2, THEN conjunct2, THEN conjunct2, THEN conjunct2, THEN conjunct2, THEN mp])
      show "columnOptions overrideConfig = Obj props objectPrototype \<and> map_of props ''constructor'' = None \<and>
        lookup objectPrototype ''constructor'' = Some objectConstructor \<and> truthy objectConstructor \<and>
        \<not> nullish (get objectConstructor ''name'')"
        by (simp add: co l t g) (simp add: props_def)
    qed
    then show ?thesis by (simp only: g)
  qed
  have u: "optionsUnder overrideConfig ''constructor'' ''name'' = Str ''Object''"
    using inherited [THEN conjunct1] d by (simp add: star_name plainObject_def split: if_splits)
  have n': "\<not> nullish (optionsUnder overrideConfig (rel_name \<lparr> rel_name = ''constructor'', rel_type = Table \<rparr>)
      (column nameRow))"
    by (simp add: nameRow_def u)
  have e: "isInsertable overrideConfig \<lparr> rel_name = ''constructor'', rel_type = Table \<rparr> nameRow"
    using inherited [THEN conjunct2, THEN conjunct2, THEN conjunct2, THEN conjunct1, THEN mp, OF n']
    by (simp add: u nameRow_def get_def)
  show ?thesis
    using a b c d e star_created star_name users_id
    by (simp only: createdRow_def nameRow_def simp_thms)
qed

end
